theory Spec2Isabelle
  imports Main "HOL-Library.List_Lexorder" "HOL-Library.Char_ord" "HOL-Library.Product_Lexorder"
    "HOL-Library.Multiset"
begin

section \<open>Python values, exceptions and results\<close>

text \<open>
  The repository is two Python modules: \<^verbatim>\<open>app.py\<close>, a Flask service over one SQLite
  file, and \<^verbatim>\<open>database_client.py\<close>, an HTTP client of that service. Both exchange
  JSON, so the values of the model are JSON values. Text is \<^typ>\<open>string\<close>: the code
  points of the model are HOL's 8-bit characters. Binary floating point is outside the
  model; a float is carried as the decimal text that denotes it.
\<close>

datatype json =
    JNull
  | JBool bool
  | JInt int
  | JFloat string
  | JStr string
  | JArr "json list"
  | JObj "(string \<times> json) list"

text \<open>
  The exceptions the two modules can meet. All of them are subclasses of Python's
  \<^verbatim>\<open>Exception\<close>; \<^verbatim>\<open>KeyboardInterrupt\<close> and \<^verbatim>\<open>SystemExit\<close>, which an
  \<^verbatim>\<open>except Exception\<close> clause lets through, are not failures of the program and are
  not modelled. A raising computation returns \<open>Inl e\<close>, a returning one \<open>Inr v\<close>.
\<close>

datatype exc =
    NameError string
  | KeyError string
  | TypeError string
  | AttributeError string
  | ValueError string
  | OverflowError string
  | OSError string
  | IntegrityError string
  | ProgrammingError string
  | RequestException string
  | HTTPError string
  | JSONDecodeError string

fun str_exc :: "exc \<Rightarrow> string" where
  "str_exc (NameError n) = ''name '' @ [CHR 0x27] @ n @ [CHR 0x27] @ '' is not defined''"
| "str_exc (KeyError k) = [CHR 0x27] @ k @ [CHR 0x27]"
| "str_exc (TypeError m) = m"
| "str_exc (AttributeError m) = m"
| "str_exc (ValueError m) = m"
| "str_exc (OverflowError m) = m"
| "str_exc (OSError m) = m"
| "str_exc (IntegrityError m) = m"
| "str_exc (ProgrammingError m) = m"
| "str_exc (RequestException m) = m"
| "str_exc (HTTPError m) = m"
| "str_exc (JSONDecodeError m) = m"

text \<open>\<^verbatim>\<open>requests.exceptions.RequestException\<close> and its subclasses.\<close>

fun is_RequestException :: "exc \<Rightarrow> bool" where
  "is_RequestException (RequestException _) = True"
| "is_RequestException (HTTPError _) = True"
| "is_RequestException (JSONDecodeError _) = True"
| "is_RequestException _ = False"

section \<open>The JSON codec: \<^verbatim>\<open>json.dumps\<close> and \<^verbatim>\<open>json.loads\<close>\<close>

text \<open>
  Both modules rely on Python's \<^verbatim>\<open>json\<close> module with its default settings:
  \<^verbatim>\<open>dumps\<close> separates items with \<^verbatim>\<open>", "\<close> and \<^verbatim>\<open>": "\<close> and escapes every character
  outside the printable ASCII range; \<^verbatim>\<open>loads\<close> is the recursive-descent scanner of
  \<^verbatim>\<open>json.decoder\<close> and \<^verbatim>\<open>json.scanner\<close>, strict about control characters in
  strings. The limits of the interpreter (recursion depth, the length of an integer's
  text) are not modelled. A code point above 255 written as \<^verbatim>\<open>\uXXXX\<close> is read as its
  low byte: the model's text cannot hold it.
\<close>

subsection \<open>json.dumps\<close>

definition digit_char :: "nat \<Rightarrow> char" where
  "digit_char d = char_of (48 + d)"

fun str_nat :: "nat \<Rightarrow> string" where
  "str_nat n = (if n < 10 then [digit_char n] else str_nat (n div 10) @ [digit_char (n mod 10)])"

declare str_nat.simps [simp del]

definition str_int :: "int \<Rightarrow> string" where
  "str_int i = (if i < 0 then CHR ''-'' # str_nat (nat (- i)) else str_nat (nat i))"

definition hex_char :: "nat \<Rightarrow> char" where
  "hex_char d = (if d < 10 then char_of (48 + d) else char_of (87 + d))"

definition escape_char :: "char \<Rightarrow> string" where
  "escape_char c =
     (if c = CHR 0x5C then [CHR 0x5C, CHR 0x5C]
      else if c = CHR 0x22 then [CHR 0x5C, CHR 0x22]
      else if c = CHR 0x08 then [CHR 0x5C, CHR ''b'']
      else if c = CHR 0x0C then [CHR 0x5C, CHR ''f'']
      else if c = CHR 0x0A then [CHR 0x5C, CHR ''n'']
      else if c = CHR 0x0D then [CHR 0x5C, CHR ''r'']
      else if c = CHR 0x09 then [CHR 0x5C, CHR ''t'']
      else if 0x20 \<le> (of_char c :: nat) \<and> (of_char c :: nat) \<le> 0x7E then [c]
      else [CHR 0x5C, CHR ''u'',
            hex_char (of_char c div 4096 mod 16), hex_char (of_char c div 256 mod 16),
            hex_char (of_char c div 16 mod 16), hex_char (of_char c mod 16)])"

definition encode_basestring_ascii :: "string \<Rightarrow> string" where
  "encode_basestring_ascii s = [CHR 0x22] @ concat (map escape_char s) @ [CHR 0x22]"

fun join :: "string \<Rightarrow> string list \<Rightarrow> string" where
  "join sep [] = []"
| "join sep [x] = x"
| "join sep (x # y # ys) = x @ sep @ join sep (y # ys)"

fun json_dumps :: "json \<Rightarrow> string" where
  "json_dumps JNull = ''null''"
| "json_dumps (JBool b) = (if b then ''true'' else ''false'')"
| "json_dumps (JInt i) = str_int i"
| "json_dumps (JFloat t) = t"
| "json_dumps (JStr s) = encode_basestring_ascii s"
| "json_dumps (JArr vs) = ''['' @ join '', '' (map json_dumps vs) @ '']''"
| "json_dumps (JObj kvs) =
     ''{'' @ join '', '' (map (\<lambda>(k, v). encode_basestring_ascii k @ '': '' @ json_dumps v) kvs) @ ''}''"


subsection \<open>json.loads\<close>

definition is_ws :: "char \<Rightarrow> bool" where
  "is_ws c = (c = CHR '' '' \<or> c = CHR 0x09 \<or> c = CHR 0x0A \<or> c = CHR 0x0D)"

definition skip_ws :: "string \<Rightarrow> string" where
  "skip_ws s = dropWhile is_ws s"

definition is_digit :: "char \<Rightarrow> bool" where
  "is_digit c = (48 \<le> (of_char c :: nat) \<and> (of_char c :: nat) \<le> 57)"

definition digit_val :: "char \<Rightarrow> nat" where
  "digit_val c = of_char c - 48"

definition nat_of_digits :: "string \<Rightarrow> nat" where
  "nat_of_digits ds = foldl (\<lambda>a c. 10 * a + digit_val c) 0 ds"

definition hex_val :: "char \<Rightarrow> nat option" where
  "hex_val c =
     (let n = (of_char c :: nat) in
      if 48 \<le> n \<and> n \<le> 57 then Some (n - 48)
      else if 97 \<le> n \<and> n \<le> 102 then Some (n - 87)
      else if 65 \<le> n \<and> n \<le> 70 then Some (n - 55)
      else None)"

fun decode_uXXXX :: "string \<Rightarrow> (char \<times> string) option" where
  "decode_uXXXX (h1 # h2 # h3 # h4 # rest) =
     (case (hex_val h1, hex_val h2, hex_val h3, hex_val h4) of
        (Some a, Some b, Some c, Some d) \<Rightarrow> Some (char_of (((a * 16 + b) * 16 + c) * 16 + d), rest)
      | _ \<Rightarrow> None)"
| "decode_uXXXX _ = None"

definition backslash :: "char \<Rightarrow> char option" where
  "backslash e =
     (if e = CHR 0x22 then Some (CHR 0x22)
      else if e = CHR 0x5C then Some (CHR 0x5C)
      else if e = CHR ''/'' then Some (CHR ''/'')
      else if e = CHR ''b'' then Some (CHR 0x08)
      else if e = CHR ''f'' then Some (CHR 0x0C)
      else if e = CHR ''n'' then Some (CHR 0x0A)
      else if e = CHR ''r'' then Some (CHR 0x0D)
      else if e = CHR ''t'' then Some (CHR 0x09)
      else None)"

fun scanstring :: "string \<Rightarrow> (string \<times> string) option" where
  "scanstring [] = None"
| "scanstring (c # cs) =
     (if c = CHR 0x22 then Some ([], cs)
      else if c = CHR 0x5C then
        (case cs of
           [] \<Rightarrow> None
         | e # cs' \<Rightarrow>
             if e = CHR ''u'' then
               (case decode_uXXXX cs' of
                  None \<Rightarrow> None
                | Some (ch, rest) \<Rightarrow>
                    (case scanstring (drop 4 cs') of
                       None \<Rightarrow> None
                     | Some (t, r) \<Rightarrow> Some (ch # t, r)))
             else
               (case backslash e of
                  None \<Rightarrow> None
                | Some ch \<Rightarrow>
                    (case scanstring cs' of
                       None \<Rightarrow> None
                     | Some (t, r) \<Rightarrow> Some (ch # t, r))))
      else if (of_char c :: nat) < 0x20 then None
      else (case scanstring cs of None \<Rightarrow> None | Some (t, r) \<Rightarrow> Some (c # t, r)))"

definition scan_exponent :: "string \<Rightarrow> string" where
  "scan_exponent s =
     (case s of
        [] \<Rightarrow> []
      | e # r \<Rightarrow>
          if e = CHR ''e'' \<or> e = CHR ''E'' then
            (case r of
               [] \<Rightarrow> []
             | g # r' \<Rightarrow>
                 if (g = CHR ''+'' \<or> g = CHR ''-'') \<and> takeWhile is_digit r' \<noteq> []
                 then e # g # takeWhile is_digit r'
                 else if takeWhile is_digit r \<noteq> [] then e # takeWhile is_digit r
                 else [])
          else [])"

definition scan_fraction :: "string \<Rightarrow> string" where
  "scan_fraction s =
     (case s of
        [] \<Rightarrow> []
      | d # r \<Rightarrow> if d = CHR ''.'' \<and> takeWhile is_digit r \<noteq> [] then d # takeWhile is_digit r else [])"

definition match_number :: "string \<Rightarrow> (json \<times> string) option" where
  "match_number s =
     (let neg = (case s of [] \<Rightarrow> False | c # _ \<Rightarrow> c = CHR ''-'');
          s1 = (if neg then tl s else s);
          ds = takeWhile is_digit s1
      in if ds = [] then None
         else
           let ip = (if hd ds = CHR ''0'' then ''0'' else ds);
               r1 = drop (length ip) s1;
               frac = scan_fraction r1;
               r2 = drop (length frac) r1;
               ex = scan_exponent r2;
               r3 = drop (length ex) r2
           in if frac = [] \<and> ex = []
              then Some (JInt (if neg then - int (nat_of_digits ip) else int (nat_of_digits ip)), r3)
              else Some (JFloat ((if neg then ''-'' else []) @ ip @ frac @ ex), r3))"

text \<open>\<^verbatim>\<open>dict(pairs)\<close>: a repeated key keeps its first position and takes the last value.\<close>

fun dict_set :: "(string \<times> json) list \<Rightarrow> string \<Rightarrow> json \<Rightarrow> (string \<times> json) list" where
  "dict_set [] k v = [(k, v)]"
| "dict_set ((k', v') # kvs) k v = (if k' = k then (k, v) # kvs else (k', v') # dict_set kvs k v)"

definition dict_of_pairs :: "(string \<times> json) list \<Rightarrow> (string \<times> json) list" where
  "dict_of_pairs pairs = foldl (\<lambda>d (k, v). dict_set d k v) [] pairs"

fun scan_once :: "nat \<Rightarrow> string \<Rightarrow> (json \<times> string) option"
and parse_array :: "nat \<Rightarrow> string \<Rightarrow> (json list \<times> string) option"
and parse_object :: "nat \<Rightarrow> string \<Rightarrow> ((string \<times> json) list \<times> string) option" where
  "scan_once 0 s = None"
| "scan_once (Suc n) s =
     (case s of
        [] \<Rightarrow> None
      | c # r \<Rightarrow>
          if c = CHR 0x22 then
            (case scanstring r of None \<Rightarrow> None | Some (t, r') \<Rightarrow> Some (JStr t, r'))
          else if c = CHR ''{'' then
            (case skip_ws r of
               [] \<Rightarrow> None
             | d # r1 \<Rightarrow>
                 if d = CHR ''}'' then Some (JObj [], r1)
                 else if d = CHR 0x22 then
                   (case parse_object n r1 of
                      None \<Rightarrow> None
                    | Some (pairs, r') \<Rightarrow> Some (JObj (dict_of_pairs pairs), r'))
                 else None)
          else if c = CHR ''['' then
            (case skip_ws r of
               [] \<Rightarrow> None
             | d # r1 \<Rightarrow>
                 if d = CHR '']'' then Some (JArr [], r1)
                 else
                   (case parse_array n (d # r1) of
                      None \<Rightarrow> None
                    | Some (vs, r') \<Rightarrow> Some (JArr vs, r')))
          else if take 4 s = ''null'' then Some (JNull, drop 4 s)
          else if take 4 s = ''true'' then Some (JBool True, drop 4 s)
          else if take 5 s = ''false'' then Some (JBool False, drop 5 s)
          else
            (case match_number s of
               Some x \<Rightarrow> Some x
             | None \<Rightarrow>
                 if take 3 s = ''NaN'' then Some (JFloat ''NaN'', drop 3 s)
                 else if take 8 s = ''Infinity'' then Some (JFloat ''Infinity'', drop 8 s)
                 else if take 9 s = ''-Infinity'' then Some (JFloat ''-Infinity'', drop 9 s)
                 else None))"
| "parse_array 0 s = None"
| "parse_array (Suc n) s =
     (case scan_once n s of
        None \<Rightarrow> None
      | Some (v, r) \<Rightarrow>
          (case skip_ws r of
             [] \<Rightarrow> None
           | d # r1 \<Rightarrow>
               if d = CHR '']'' then Some ([v], r1)
               else if d = CHR '','' then
                 (case parse_array n (skip_ws r1) of
                    None \<Rightarrow> None
                  | Some (vs, r') \<Rightarrow> Some (v # vs, r'))
               else None))"
| "parse_object 0 s = None"
| "parse_object (Suc n) s =
     (case scanstring s of
        None \<Rightarrow> None
      | Some (k, r) \<Rightarrow>
          (case skip_ws r of
             [] \<Rightarrow> None
           | c # r1 \<Rightarrow>
               if c \<noteq> CHR '':'' then None
               else
                 (case scan_once n (skip_ws r1) of
                    None \<Rightarrow> None
                  | Some (v, r2) \<Rightarrow>
                      (case skip_ws r2 of
                         [] \<Rightarrow> None
                       | d # r3 \<Rightarrow>
                           if d = CHR ''}'' then Some ([(k, v)], r3)
                           else if d = CHR '','' then
                             (case skip_ws r3 of
                                [] \<Rightarrow> None
                              | q # r4 \<Rightarrow>
                                  if q = CHR 0x22 then
                                    (case parse_object n r4 of
                                       None \<Rightarrow> None
                                     | Some (pairs, r') \<Rightarrow> Some ((k, v) # pairs, r'))
                                  else None)
                           else None))))"

definition json_loads :: "string \<Rightarrow> json option" where
  "json_loads s =
     (case scan_once (2 * length s + 2) (skip_ws s) of
        None \<Rightarrow> None
      | Some (v, r) \<Rightarrow> if skip_ws r = [] then Some v else None)"

text \<open>The items of a serialised list of strings, between the brackets.\<close>

definition dumps_strings :: "string list \<Rightarrow> string" where
  "dumps_strings cs = join '', '' (map json_dumps (map JStr cs))"

section \<open>The client: \<^verbatim>\<open>database_client.py\<close>\<close>

subsection \<open>Construction\<close>

text \<open>
  The names bound at module level in \<^verbatim>\<open>database_client.py\<close>: its three imports
  (\<^verbatim>\<open>requests\<close>, \<^verbatim>\<open>json\<close>, \<^verbatim>\<open>logging\<close>), the logger and the class. A global name
  that is not among them (and is no builtin) raises \<^verbatim>\<open>NameError\<close> when evaluated.
\<close>

definition client_module_names :: "string list" where
  "client_module_names = [''requests'', ''json'', ''logging'', ''logger'', ''DatabaseClient'']"

definition global_name :: "string list \<Rightarrow> string \<Rightarrow> exc + unit" where
  "global_name names n = (if n \<in> set names then Inr () else Inl (NameError n))"

definition getenv :: "(string \<rightharpoonup> string) \<Rightarrow> string \<Rightarrow> string \<Rightarrow> string" where
  "getenv environ k dflt = (case environ k of None \<Rightarrow> dflt | Some v \<Rightarrow> v)"

record DatabaseClient =
  base_url :: string

text \<open>
  \<^verbatim>\<open>self.base_url = base_url or os.getenv('DATABASE_SERVICE_URL', '<default>')\<close>.
  The argument defaults to \<^verbatim>\<open>None\<close>; \<^verbatim>\<open>or\<close> evaluates its right operand only when
  the left one is falsy (\<^verbatim>\<open>None\<close> or the empty string), and evaluating it starts with
  the lookup of the global name \<^verbatim>\<open>os\<close>.
\<close>

definition DatabaseClient_init ::
  "(string \<rightharpoonup> string) \<Rightarrow> string option \<Rightarrow> exc + DatabaseClient" where
  "DatabaseClient_init environ base_url_arg =
     (case base_url_arg of
        Some u \<Rightarrow>
          if u \<noteq> [] then Inr \<lparr>base_url = u\<rparr>
          else (case global_name client_module_names ''os'' of
                  Inl e \<Rightarrow> Inl e
                | Inr _ \<Rightarrow> Inr \<lparr>base_url = getenv environ ''DATABASE_SERVICE_URL''
                                     ''https://ai-study-advisor-database.zeabur.app''\<rparr>)
      | None \<Rightarrow>
          (case global_name client_module_names ''os'' of
             Inl e \<Rightarrow> Inl e
           | Inr _ \<Rightarrow> Inr \<lparr>base_url = getenv environ ''DATABASE_SERVICE_URL''
                                ''https://ai-study-advisor-database.zeabur.app''\<rparr>))"

subsection \<open>Requests\<close>

text \<open>
  The \<^verbatim>\<open>requests\<close> session is the environment of the client: any function from the
  request sent to either an exception (a connection error, a timeout, too many redirects)
  or the response received. Of a response the client reads the status code, in
  \<^verbatim>\<open>raise_for_status\<close>, and the body, in \<^verbatim>\<open>response.json()\<close>. The constant
  \<^verbatim>\<open>Content-Type\<close> header is left out.
\<close>

record http_request =
  req_method :: string
  req_url :: string
  req_json :: "json option"
  req_params :: "(string \<times> string) list"

record http_response =
  status_code :: nat
  content :: string

type_synonym session = "http_request \<Rightarrow> exc + http_response"

text \<open>
  \<^verbatim>\<open>Response.raise_for_status\<close> of the \<^verbatim>\<open>requests\<close> library raises \<^verbatim>\<open>HTTPError\<close> for
  a status from 400 to 599 (client and server errors) and returns for any other status.
\<close>

definition raise_for_status :: "http_request \<Rightarrow> http_response \<Rightarrow> exc + unit" where
  "raise_for_status req r =
     (if 400 \<le> status_code r \<and> status_code r < 500
      then Inl (HTTPError (str_nat (status_code r) @ '' Client Error for url: '' @ req_url req))
      else if 500 \<le> status_code r \<and> status_code r < 600
      then Inl (HTTPError (str_nat (status_code r) @ '' Server Error for url: '' @ req_url req))
      else Inr ())"

definition response_json :: "http_response \<Rightarrow> exc + json" where
  "response_json r =
     (case json_loads (content r) of
        None \<Rightarrow> Inl (JSONDecodeError ''Expecting value'')
      | Some v \<Rightarrow> Inr v)"

definition error_envelope :: "exc \<Rightarrow> json" where
  "error_envelope e = JObj [(''ok'', JBool False), (''error'', JStr (str_exc e))]"

text \<open>The body of the \<^verbatim>\<open>try\<close> block of \<^verbatim>\<open>_make_request\<close>.\<close>

definition make_request_try ::
  "DatabaseClient \<Rightarrow> session \<Rightarrow> string \<Rightarrow> string \<Rightarrow> json option \<Rightarrow> (string \<times> string) list
     \<Rightarrow> exc + json" where
  "make_request_try self session method endpoint data params =
     (let url = base_url self @ endpoint;
          req = (if method = ''GET''
                 then Inr \<lparr>req_method = ''GET'', req_url = url, req_json = None, req_params = params\<rparr>
                 else if method = ''POST''
                 then Inr \<lparr>req_method = ''POST'', req_url = url, req_json = data, req_params = []\<rparr>
                 else if method = ''PUT''
                 then Inr \<lparr>req_method = ''PUT'', req_url = url, req_json = data, req_params = []\<rparr>
                 else Inl (ValueError (''Unsupported HTTP method: '' @ method)))
      in case req of
           Inl e \<Rightarrow> Inl e
         | Inr rq \<Rightarrow>
             (case session rq of
                Inl e \<Rightarrow> Inl e
              | Inr response \<Rightarrow>
                  (case raise_for_status rq response of
                     Inl e \<Rightarrow> Inl e
                   | Inr _ \<Rightarrow> response_json response)))"

text \<open>
  \<^verbatim>\<open>_make_request\<close>: the two \<^verbatim>\<open>except\<close> clauses, the first for
  \<^verbatim>\<open>RequestException\<close> and the second for any other \<^verbatim>\<open>Exception\<close>, differ in the line
  they log and return the same dictionary.
\<close>

definition make_request ::
  "DatabaseClient \<Rightarrow> session \<Rightarrow> string \<Rightarrow> string \<Rightarrow> json option \<Rightarrow> (string \<times> string) list
     \<Rightarrow> exc + json" where
  "make_request self session method endpoint data params =
     (case make_request_try self session method endpoint data params of
        Inr v \<Rightarrow> Inr v
      | Inl e \<Rightarrow>
          if is_RequestException e then Inr (error_envelope e)
          else Inr (error_envelope e))"

subsection \<open>The twelve methods\<close>

definition client_health_check :: "DatabaseClient \<Rightarrow> session \<Rightarrow> exc + json" where
  "client_health_check self session = make_request self session ''GET'' ''/health'' None []"

definition client_save_user :: "DatabaseClient \<Rightarrow> session \<Rightarrow> json \<Rightarrow> exc + json" where
  "client_save_user self session user_data =
     make_request self session ''POST'' ''/api/users'' (Some user_data) []"

definition client_get_user :: "DatabaseClient \<Rightarrow> session \<Rightarrow> string \<Rightarrow> exc + json" where
  "client_get_user self session user_id =
     make_request self session ''GET'' (''/api/users/'' @ user_id) None []"

definition client_get_user_profiles :: "DatabaseClient \<Rightarrow> session \<Rightarrow> string \<Rightarrow> exc + json" where
  "client_get_user_profiles self session user_id =
     make_request self session ''GET'' (''/api/users/'' @ user_id @ ''/profiles'') None []"

definition client_save_user_profile :: "DatabaseClient \<Rightarrow> session \<Rightarrow> json \<Rightarrow> exc + json" where
  "client_save_user_profile self session profile_data =
     make_request self session ''POST'' ''/api/profiles'' (Some profile_data) []"

definition client_get_user_profile :: "DatabaseClient \<Rightarrow> session \<Rightarrow> string \<Rightarrow> exc + json" where
  "client_get_user_profile self session profile_id =
     make_request self session ''GET'' (''/api/profiles/'' @ profile_id) None []"

definition client_update_user_profile ::
  "DatabaseClient \<Rightarrow> session \<Rightarrow> string \<Rightarrow> json \<Rightarrow> exc + json" where
  "client_update_user_profile self session profile_id data =
     make_request self session ''PUT'' (''/api/profiles/'' @ profile_id) (Some data) []"

definition client_save_chat_message :: "DatabaseClient \<Rightarrow> session \<Rightarrow> json \<Rightarrow> exc + json" where
  "client_save_chat_message self session message_data =
     make_request self session ''POST'' ''/api/messages'' (Some message_data) []"

definition client_get_chat_messages ::
  "DatabaseClient \<Rightarrow> session \<Rightarrow> string \<Rightarrow> int \<Rightarrow> exc + json" where
  "client_get_chat_messages self session profile_id limit =
     make_request self session ''GET'' (''/api/messages/'' @ profile_id) None
       [(''limit'', str_int limit)]"

definition client_save_usage_stat :: "DatabaseClient \<Rightarrow> session \<Rightarrow> json \<Rightarrow> exc + json" where
  "client_save_usage_stat self session stat_data =
     make_request self session ''POST'' ''/api/stats'' (Some stat_data) []"

definition client_get_usage_stats :: "DatabaseClient \<Rightarrow> session \<Rightarrow> int \<Rightarrow> exc + json" where
  "client_get_usage_stats self session days =
     make_request self session ''GET'' ''/api/stats'' None [(''days'', str_int days)]"

definition client_create_backup :: "DatabaseClient \<Rightarrow> session \<Rightarrow> exc + json" where
  "client_create_backup self session = make_request self session ''POST'' ''/api/backup'' None []"

text \<open>A call of one of the twelve methods, with its arguments, and the call itself.\<close>

datatype client_call =
    Health_check
  | Save_user json
  | Get_user string
  | Get_user_profiles string
  | Save_user_profile json
  | Get_user_profile string
  | Update_user_profile string json
  | Save_chat_message json
  | Get_chat_messages string int
  | Save_usage_stat json
  | Get_usage_stats int
  | Create_backup

fun call_method :: "DatabaseClient \<Rightarrow> session \<Rightarrow> client_call \<Rightarrow> exc + json" where
  "call_method self session Health_check = client_health_check self session"
| "call_method self session (Save_user d) = client_save_user self session d"
| "call_method self session (Get_user u) = client_get_user self session u"
| "call_method self session (Get_user_profiles u) = client_get_user_profiles self session u"
| "call_method self session (Save_user_profile d) = client_save_user_profile self session d"
| "call_method self session (Get_user_profile p) = client_get_user_profile self session p"
| "call_method self session (Update_user_profile p d) = client_update_user_profile self session p d"
| "call_method self session (Save_chat_message d) = client_save_chat_message self session d"
| "call_method self session (Get_chat_messages p l) = client_get_chat_messages self session p l"
| "call_method self session (Save_usage_stat d) = client_save_usage_stat self session d"
| "call_method self session (Get_usage_stats n) = client_get_usage_stats self session n"
| "call_method self session Create_backup = client_create_backup self session"

text \<open>The one HTTP request a call sends.\<close>

fun request_of :: "DatabaseClient \<Rightarrow> client_call \<Rightarrow> http_request" where
  "request_of self Health_check =
     \<lparr>req_method = ''GET'', req_url = base_url self @ ''/health'', req_json = None, req_params = []\<rparr>"
| "request_of self (Save_user d) =
     \<lparr>req_method = ''POST'', req_url = base_url self @ ''/api/users'', req_json = Some d, req_params = []\<rparr>"
| "request_of self (Get_user u) =
     \<lparr>req_method = ''GET'', req_url = base_url self @ ''/api/users/'' @ u, req_json = None, req_params = []\<rparr>"
| "request_of self (Get_user_profiles u) =
     \<lparr>req_method = ''GET'', req_url = base_url self @ ''/api/users/'' @ u @ ''/profiles'',
      req_json = None, req_params = []\<rparr>"
| "request_of self (Save_user_profile d) =
     \<lparr>req_method = ''POST'', req_url = base_url self @ ''/api/profiles'', req_json = Some d, req_params = []\<rparr>"
| "request_of self (Get_user_profile p) =
     \<lparr>req_method = ''GET'', req_url = base_url self @ ''/api/profiles/'' @ p, req_json = None, req_params = []\<rparr>"
| "request_of self (Update_user_profile p d) =
     \<lparr>req_method = ''PUT'', req_url = base_url self @ ''/api/profiles/'' @ p, req_json = Some d, req_params = []\<rparr>"
| "request_of self (Save_chat_message d) =
     \<lparr>req_method = ''POST'', req_url = base_url self @ ''/api/messages'', req_json = Some d, req_params = []\<rparr>"
| "request_of self (Get_chat_messages p l) =
     \<lparr>req_method = ''GET'', req_url = base_url self @ ''/api/messages/'' @ p, req_json = None,
      req_params = [(''limit'', str_int l)]\<rparr>"
| "request_of self (Save_usage_stat d) =
     \<lparr>req_method = ''POST'', req_url = base_url self @ ''/api/stats'', req_json = Some d, req_params = []\<rparr>"
| "request_of self (Get_usage_stats n) =
     \<lparr>req_method = ''GET'', req_url = base_url self @ ''/api/stats'', req_json = None,
      req_params = [(''days'', str_int n)]\<rparr>"
| "request_of self Create_backup =
     \<lparr>req_method = ''POST'', req_url = base_url self @ ''/api/backup'', req_json = None, req_params = []\<rparr>"

section \<open>The service: \<^verbatim>\<open>app.py\<close>\<close>

subsection \<open>Python dictionaries and sequences of fallible steps\<close>

text \<open>
  A handler starts from the value \<^verbatim>\<open>request.get_json()\<close> returns; how the framework
  parses the request is outside the model. The value need not be a dictionary, so the
  three operations the handlers apply to it are modelled on every JSON value:
  \<^verbatim>\<open>d.get(k, default)\<close>, \<^verbatim>\<open>d[k]\<close> and \<^verbatim>\<open>k in d\<close>.
\<close>

fun dict_get :: "json \<Rightarrow> string \<Rightarrow> json \<Rightarrow> exc + json" where
  "dict_get (JObj kvs) k dflt = (case map_of kvs k of Some v \<Rightarrow> Inr v | None \<Rightarrow> Inr dflt)"
| "dict_get _ k dflt = Inl (AttributeError ''object has no attribute get'')"

fun getitem :: "json \<Rightarrow> string \<Rightarrow> exc + json" where
  "getitem (JObj kvs) k = (case map_of kvs k of Some v \<Rightarrow> Inr v | None \<Rightarrow> Inl (KeyError k))"
| "getitem (JArr vs) k = Inl (TypeError ''list indices must be integers or slices, not str'')"
| "getitem (JStr s) k = Inl (TypeError ''string indices must be integers'')"
| "getitem _ k = Inl (TypeError ''object is not subscriptable'')"

fun is_substring :: "string \<Rightarrow> string \<Rightarrow> bool" where
  "is_substring k [] = (k = [])"
| "is_substring k (c # s) = (take (length k) (c # s) = k \<or> is_substring k s)"

fun contains :: "string \<Rightarrow> json \<Rightarrow> exc + bool" where
  "contains k (JObj kvs) = Inr (k \<in> fst ` set kvs)"
| "contains k (JArr vs) = Inr (JStr k \<in> set vs)"
| "contains k (JStr s) = Inr (is_substring k s)"
| "contains k _ = Inl (TypeError ''argument is not iterable'')"

text \<open>The steps of a tuple or an argument list run left to right; the first exception ends them.\<close>

fun sequence_exc :: "(exc + 'a) list \<Rightarrow> exc + 'a list" where
  "sequence_exc [] = Inr []"
| "sequence_exc (Inl e # xs) = Inl e"
| "sequence_exc (Inr v # xs) = (case sequence_exc xs of Inl e \<Rightarrow> Inl e | Inr vs \<Rightarrow> Inr (v # vs))"

subsection \<open>SQLite values, binding and type affinity\<close>

text \<open>
  The storage classes of SQLite the service can write: its parameters come from JSON, so
  no BLOB is ever bound. Binding a list or a dictionary is refused by the driver, and an
  integer outside 64 bits overflows.
\<close>

datatype sqlval = SNull | SInt int | SReal string | SText string

fun bind_param :: "json \<Rightarrow> exc + sqlval" where
  "bind_param JNull = Inr SNull"
| "bind_param (JBool b) = Inr (SInt (if b then 1 else 0))"
| "bind_param (JInt i) =
     (if - (2 ^ 63) \<le> i \<and> i < 2 ^ 63 then Inr (SInt i)
      else Inl (OverflowError ''Python int too large to convert to SQLite INTEGER''))"
| "bind_param (JFloat t) = Inr (SReal t)"
| "bind_param (JStr s) = Inr (SText s)"
| "bind_param (JArr vs) = Inl (ProgrammingError ''Error binding parameter: type list is not supported'')"
| "bind_param (JObj kvs) = Inl (ProgrammingError ''Error binding parameter: type dict is not supported'')"

text \<open>What the driver hands back for a stored value, as \<^verbatim>\<open>jsonify\<close> then serialises it.\<close>

fun json_of_sql :: "sqlval \<Rightarrow> json" where
  "json_of_sql SNull = JNull"
| "json_of_sql (SInt i) = JInt i"
| "json_of_sql (SReal t) = JFloat t"
| "json_of_sql (SText s) = JStr s"

text \<open>
  A column declared \<^verbatim>\<open>TEXT\<close> stores a number as its text. The conversions of the numeric
  affinities (a numeric text stored in an \<^verbatim>\<open>INTEGER\<close>, \<^verbatim>\<open>REAL\<close> or \<^verbatim>\<open>TIMESTAMP\<close>
  column, an integer stored in a \<^verbatim>\<open>REAL\<close> column) need floating point and are not
  modelled: such a column stores the value as it is bound.
\<close>

datatype coltype = TEXT | INTEGER | REAL | TIMESTAMP

fun affinity :: "coltype \<Rightarrow> sqlval \<Rightarrow> sqlval" where
  "affinity TEXT (SInt i) = SText (str_int i)"
| "affinity TEXT (SReal t) = SText t"
| "affinity _ v = v"

subsection \<open>Clocks\<close>

record datetime =
  year :: nat
  month :: nat
  day :: nat
  hour :: nat
  minute :: nat
  second :: nat
  microsecond :: nat

definition zfill :: "nat \<Rightarrow> string \<Rightarrow> string" where
  "zfill w s = replicate (w - length s) (CHR ''0'') @ s"

text \<open>\<^verbatim>\<open>datetime.isoformat()\<close>: the microseconds are printed only when they are not zero.\<close>

definition isoformat :: "datetime \<Rightarrow> string" where
  "isoformat d =
     zfill 4 (str_nat (year d)) @ ''-'' @ zfill 2 (str_nat (month d)) @ ''-'' @ zfill 2 (str_nat (day d))
     @ ''T'' @ zfill 2 (str_nat (hour d)) @ '':'' @ zfill 2 (str_nat (minute d)) @ '':''
     @ zfill 2 (str_nat (second d))
     @ (if microsecond d = 0 then [] else ''.'' @ zfill 6 (str_nat (microsecond d)))"

text \<open>\<^verbatim>\<open>strftime('%Y%m%d_%H%M%S')\<close>, the stamp in the name of a backup file.\<close>

definition strftime_backup :: "datetime \<Rightarrow> string" where
  "strftime_backup d =
     zfill 4 (str_nat (year d)) @ zfill 2 (str_nat (month d)) @ zfill 2 (str_nat (day d)) @ ''_''
     @ zfill 2 (str_nat (hour d)) @ zfill 2 (str_nat (minute d)) @ zfill 2 (str_nat (second d))"

text \<open>SQLite's \<^verbatim>\<open>CURRENT_TIMESTAMP\<close>: \<^verbatim>\<open>YYYY-MM-DD HH:MM:SS\<close> of the engine's clock.\<close>

definition current_timestamp :: "datetime \<Rightarrow> string" where
  "current_timestamp d =
     zfill 4 (str_nat (year d)) @ ''-'' @ zfill 2 (str_nat (month d)) @ ''-'' @ zfill 2 (str_nat (day d))
     @ '' '' @ zfill 2 (str_nat (hour d)) @ '':'' @ zfill 2 (str_nat (minute d)) @ '':''
     @ zfill 2 (str_nat (second d))"

subsection \<open>Tables\<close>

text \<open>
  A row gives every column its value; a table is its rows in rowid order together with
  the counter \<^verbatim>\<open>AUTOINCREMENT\<close> keeps in \<^verbatim>\<open>sqlite_sequence\<close>. Of the nine tables
  \<^verbatim>\<open>init_database\<close> creates, the claims concern \<^verbatim>\<open>user_profiles\<close> and
  \<^verbatim>\<open>chat_messages\<close>; the others are left out. A statement on an available store
  succeeds unless a parameter cannot be bound or a constraint fails: faults of the
  engine itself (a locked or unreadable file) are not modelled.
\<close>

type_synonym row = "string \<Rightarrow> sqlval"

record table =
  rows :: "row list"
  seq :: int

record database =
  user_profiles :: table
  chat_messages :: table

datatype col_default = No_default | Current_timestamp

datatype column = Column (col_name: string) (col_type: coltype) (not_null: bool) (col_default: col_default)

text \<open>The columns of \<^verbatim>\<open>user_profiles\<close>, in the order of \<^verbatim>\<open>CREATE TABLE\<close>.\<close>

definition user_profiles_schema :: "column list" where
  "user_profiles_schema =
     [Column ''id'' INTEGER False No_default,
      Column ''profile_id'' TEXT True No_default,
      Column ''user_id'' TEXT True No_default,
      Column ''user_role'' TEXT True No_default,
      Column ''student_name'' TEXT False No_default,
      Column ''student_email'' TEXT False No_default,
      Column ''parent_name'' TEXT False No_default,
      Column ''parent_email'' TEXT False No_default,
      Column ''relationship'' TEXT False No_default,
      Column ''child_name'' TEXT False No_default,
      Column ''child_email'' TEXT False No_default,
      Column ''citizenship'' TEXT False No_default,
      Column ''gpa'' REAL False No_default,
      Column ''degree'' TEXT False No_default,
      Column ''countries'' TEXT False No_default,
      Column ''budget'' INTEGER False No_default,
      Column ''target_intake'' TEXT False No_default,
      Column ''created_at'' TIMESTAMP False Current_timestamp,
      Column ''updated_at'' TIMESTAMP False Current_timestamp]"

text \<open>
  The columns of \<^verbatim>\<open>chat_messages\<close>. The default of \<^verbatim>\<open>language\<close> never applies: the
  one \<^verbatim>\<open>INSERT\<close> of the service names the column.
\<close>

definition chat_messages_schema :: "column list" where
  "chat_messages_schema =
     [Column ''id'' INTEGER False No_default,
      Column ''profile_id'' TEXT True No_default,
      Column ''user_id'' TEXT True No_default,
      Column ''message_type'' TEXT True No_default,
      Column ''message_content'' TEXT True No_default,
      Column ''language'' TEXT False No_default,
      Column ''user_role'' TEXT False No_default,
      Column ''created_at'' TIMESTAMP False Current_timestamp]"

definition find_column :: "column list \<Rightarrow> string \<Rightarrow> column option" where
  "find_column schema c = find (\<lambda>col. col_name col = c) schema"

text \<open>\<^verbatim>\<open>SELECT *\<close>: the tuple of a row, one value for each column in schema order.\<close>

definition select_star :: "column list \<Rightarrow> row \<Rightarrow> sqlval list" where
  "select_star schema r = map (\<lambda>col. r (col_name col)) schema"

text \<open>
  The rowid of an \<^verbatim>\<open>AUTOINCREMENT\<close> table: one more than the largest rowid the table
  has ever held.
\<close>

definition max_rowid :: "row list \<Rightarrow> int" where
  "max_rowid rs = foldr (\<lambda>r m. case r ''id'' of SInt i \<Rightarrow> max i m | _ \<Rightarrow> m) rs 0"

definition next_rowid :: "table \<Rightarrow> int" where
  "next_rowid t = max (seq t) (max_rowid (rows t)) + 1"

text \<open>
  The row an \<^verbatim>\<open>INSERT\<close> builds from the columns it names: a named column takes its
  parameter under the column's affinity, \<^verbatim>\<open>id\<close> the next rowid, a column with
  \<^verbatim>\<open>DEFAULT CURRENT_TIMESTAMP\<close> the time of the engine, any other column \<^verbatim>\<open>NULL\<close>.
\<close>

definition new_row :: "column list \<Rightarrow> (string \<times> sqlval) list \<Rightarrow> int \<Rightarrow> string \<Rightarrow> row" where
  "new_row schema assigns rowid ts =
     (\<lambda>c. case find_column schema c of
             None \<Rightarrow> SNull
           | Some col \<Rightarrow>
               if c = ''id'' then SInt rowid
               else (case map_of assigns c of
                       Some v \<Rightarrow> affinity (col_type col) v
                     | None \<Rightarrow>
                         (case col_default col of
                            Current_timestamp \<Rightarrow> SText ts
                          | No_default \<Rightarrow> SNull)))"

definition not_null_violation :: "string \<Rightarrow> column list \<Rightarrow> row \<Rightarrow> exc option" where
  "not_null_violation tname schema r =
     (case find (\<lambda>col. not_null col \<and> r (col_name col) = SNull) schema of
        None \<Rightarrow> None
      | Some col \<Rightarrow> Some (IntegrityError (''NOT NULL constraint failed: '' @ tname @ ''.'' @ col_name col)))"

text \<open>\<^verbatim>\<open>INSERT INTO t (...) VALUES (...)\<close>.\<close>

definition sql_insert ::
  "string \<Rightarrow> column list \<Rightarrow> (string \<times> sqlval) list \<Rightarrow> string \<Rightarrow> table \<Rightarrow> exc + table" where
  "sql_insert tname schema assigns ts t =
     (let r = new_row schema assigns (next_rowid t) ts
      in case not_null_violation tname schema r of
           Some e \<Rightarrow> Inl e
         | None \<Rightarrow> Inr \<lparr>rows = rows t @ [r], seq = next_rowid t\<rparr>)"

text \<open>
  \<^verbatim>\<open>INSERT OR REPLACE INTO t (...) VALUES (...)\<close> on a table with one \<^verbatim>\<open>UNIQUE\<close>
  column: the rows that hold the new row's value of that column are deleted before the
  new row is inserted. A \<^verbatim>\<open>NOT NULL\<close> failure on a column without default aborts.
\<close>

definition sql_insert_or_replace ::
  "string \<Rightarrow> column list \<Rightarrow> string \<Rightarrow> (string \<times> sqlval) list \<Rightarrow> string \<Rightarrow> table \<Rightarrow> exc + table" where
  "sql_insert_or_replace tname schema ucol assigns ts t =
     (let r = new_row schema assigns (next_rowid t) ts
      in case not_null_violation tname schema r of
           Some e \<Rightarrow> Inl e
         | None \<Rightarrow> Inr \<lparr>rows = filter (\<lambda>r'. r' ucol \<noteq> r ucol) (rows t) @ [r], seq = next_rowid t\<rparr>)"

text \<open>
  \<^verbatim>\<open>UPDATE t SET c1 = ?, ... WHERE cond\<close>: every row the condition selects takes the new
  values, under the affinity of each column. The engine checks \<^verbatim>\<open>NOT NULL\<close> on the
  columns the statement assigns; a failure in one of the rows aborts the statement and
  changes nothing.
\<close>

definition set_column :: "column list \<Rightarrow> row \<Rightarrow> string \<times> sqlval \<Rightarrow> row" where
  "set_column schema r cv =
     (case find_column schema (fst cv) of
        None \<Rightarrow> r
      | Some col \<Rightarrow> r(fst cv := affinity (col_type col) (snd cv)))"

definition sql_update ::
  "string \<Rightarrow> column list \<Rightarrow> (string \<times> sqlval) list \<Rightarrow> (row \<Rightarrow> bool) \<Rightarrow> table \<Rightarrow> exc + table" where
  "sql_update tname schema assigns cond t =
     (let assigned = filter (\<lambda>col. col_name col \<in> fst ` set assigns) schema;
          updated = (\<lambda>r. foldl (set_column schema) r assigns)
      in case List.map_filter
                (\<lambda>r. if cond r then not_null_violation tname assigned (updated r) else None) (rows t) of
           e # _ \<Rightarrow> Inl e
         | [] \<Rightarrow> Inr (t\<lparr>rows := map (\<lambda>r. if cond r then updated r else r) (rows t)\<rparr>))"

text \<open>
  The order of \<^verbatim>\<open>ORDER BY\<close>: \<^verbatim>\<open>NULL\<close> first, then numbers, then text byte by byte.
  (A real is placed by its text: floating point is outside the model.)
\<close>

fun sort_key_of :: "sqlval \<Rightarrow> nat \<times> int \<times> string" where
  "sort_key_of SNull = (0, 0, [])"
| "sort_key_of (SInt i) = (1, i, [])"
| "sort_key_of (SReal t) = (1, 0, t)"
| "sort_key_of (SText s) = (2, 0, s)"

definition order_by_desc :: "string \<Rightarrow> row list \<Rightarrow> row list" where
  "order_by_desc c rs = rev (sort_key (\<lambda>r. sort_key_of (r c)) rs)"


subsection \<open>The file system, the log and the backup\<close>

text \<open>
  The backup works on the file system through five calls. They are the environment of
  \<^verbatim>\<open>create_backup\<close>: each takes the file system, may change it, and either returns or
  raises. \<^verbatim>\<open>open_write p s\<close> stands for \<^verbatim>\<open>with open(p, 'w') as f: f.write(s)\<close>. The
  lines the backup logs are kept, each with its level.
\<close>

record 'fs os_module =
  os_makedirs :: "string \<Rightarrow> 'fs \<Rightarrow> exc option \<times> 'fs"
  open_write :: "string \<Rightarrow> string \<Rightarrow> 'fs \<Rightarrow> exc option \<times> 'fs"
  os_remove :: "string \<Rightarrow> 'fs \<Rightarrow> exc option \<times> 'fs"
  shutil_copy2 :: "string \<Rightarrow> string \<Rightarrow> 'fs \<Rightarrow> exc option \<times> 'fs"
  os_listdir :: "string \<Rightarrow> 'fs \<Rightarrow> (exc + string list) \<times> 'fs"

datatype level = INFO | WARNING | ERROR

type_synonym log = "(level \<times> string) list"

record DatabaseManager =
  db_path :: string

definition startswith :: "string \<Rightarrow> string \<Rightarrow> bool" where
  "startswith s pfx = (take (length pfx) s = pfx)"

text \<open>\<^verbatim>\<open>os.path.join\<close> and \<^verbatim>\<open>os.path.dirname\<close> of \<^verbatim>\<open>posixpath\<close>.\<close>

definition os_path_join :: "string \<Rightarrow> string \<Rightarrow> string" where
  "os_path_join a b =
     (if startswith b ''/'' then b
      else if a = [] \<or> last a = CHR ''/'' then a @ b
      else a @ ''/'' @ b)"

definition os_path_dirname :: "string \<Rightarrow> string" where
  "os_path_dirname p =
     (let head = rev (dropWhile (\<lambda>c. c \<noteq> CHR ''/'') (rev p))
      in if head \<noteq> [] \<and> \<not> list_all (\<lambda>c. c = CHR ''/'') head
         then rev (dropWhile (\<lambda>c. c = CHR ''/'') (rev head))
         else head)"

text \<open>
  The loop over the candidate directories: the first one in which the directory can be
  made and a test file written and removed is chosen; a candidate that raises at any of
  the three steps is logged and skipped.
\<close>

definition cannot_use :: "string \<Rightarrow> exc \<Rightarrow> level \<times> string" where
  "cannot_use backup_path e =
     (WARNING, ''Cannot use backup directory '' @ backup_path @ '': '' @ str_exc e)"

fun probe_dirs :: "'fs os_module \<Rightarrow> string list \<Rightarrow> 'fs \<Rightarrow> log \<Rightarrow> string option \<times> 'fs \<times> log" where
  "probe_dirs os [] fs lg = (None, fs, lg)"
| "probe_dirs os (backup_path # ps) fs lg =
     (case os_makedirs os backup_path fs of
        (Some e, fs1) \<Rightarrow> probe_dirs os ps fs1 (lg @ [cannot_use backup_path e])
      | (None, fs1) \<Rightarrow>
          (let test_file = os_path_join backup_path ''test_write''
           in case open_write os test_file ''test'' fs1 of
                (Some e, fs2) \<Rightarrow> probe_dirs os ps fs2 (lg @ [cannot_use backup_path e])
              | (None, fs2) \<Rightarrow>
                  (case os_remove os test_file fs2 of
                     (Some e, fs3) \<Rightarrow> probe_dirs os ps fs3 (lg @ [cannot_use backup_path e])
                   | (None, fs3) \<Rightarrow>
                       (Some backup_path, fs3,
                        lg @ [(INFO, ''Using backup directory: '' @ backup_path)]))))"

text \<open>The loop that removes the old backups; the first removal that raises ends it.\<close>

fun remove_old :: "'fs os_module \<Rightarrow> string \<Rightarrow> string list \<Rightarrow> 'fs \<Rightarrow> exc option \<times> 'fs" where
  "remove_old os d [] fs = (None, fs)"
| "remove_old os d (old_backup # olds) fs =
     (case os_remove os (os_path_join d old_backup) fs of
        (Some e, fs1) \<Rightarrow> (Some e, fs1)
      | (None, fs1) \<Rightarrow> remove_old os d olds fs1)"

text \<open>The candidate directories, in the order they are tried.\<close>

definition backup_dirs :: "DatabaseManager \<Rightarrow> string list" where
  "backup_dirs self =
     [''/data/backups'',
      os_path_join (os_path_dirname (db_path self)) ''backups'',
      ''./backups'']"

definition backup_name :: "datetime \<Rightarrow> string" where
  "backup_name now = ''ai_study_advisor_backup_'' @ strftime_backup now @ ''.db''"

text \<open>
  The body of the \<^verbatim>\<open>try\<close> block of \<^verbatim>\<open>DatabaseManager.create_backup\<close>. It returns
  \<open>None\<close> when it ends normally (also by the early \<^verbatim>\<open>return\<close>) and \<open>Some e\<close> when it
  raises \<open>e\<close>. \<^verbatim>\<open>backup_files[:-5]\<close> is all but the last five names of the sorted list,
  and nothing when there are five or fewer.
\<close>

definition create_backup_try ::
  "'fs os_module \<Rightarrow> DatabaseManager \<Rightarrow> datetime \<Rightarrow> 'fs \<Rightarrow> log \<Rightarrow> exc option \<times> 'fs \<times> log" where
  "create_backup_try os self now fs lg =
     (case probe_dirs os (backup_dirs self) fs lg of
        (backup_dir, fs1, lg1) \<Rightarrow>
             (case backup_dir of
                None \<Rightarrow> (None, fs1, lg1 @ [(WARNING, ''No writable backup directory found'')])
              | Some d \<Rightarrow>
                  if d = [] then (None, fs1, lg1 @ [(WARNING, ''No writable backup directory found'')])
                  else
                    (let backup_path = os_path_join d (backup_name now)
                     in case shutil_copy2 os (db_path self) backup_path fs1 of
                          (Some e, fs2) \<Rightarrow> (Some e, fs2, lg1)
                        | (None, fs2) \<Rightarrow>
                            (let lg2 = lg1 @ [(INFO, ''Database backup created: '' @ backup_path)]
                             in case os_listdir os d fs2 of
                                  (Inl e, fs3) \<Rightarrow> (Some e, fs3, lg2)
                                | (Inr names, fs3) \<Rightarrow>
                                    (let backup_files =
                                           sort (filter (\<lambda>f. startswith f ''ai_study_advisor_backup_'') names)
                                     in case remove_old os d
                                               (take (length backup_files - 5) backup_files) fs3 of
                                          (r, fs4) \<Rightarrow> (r, fs4, lg2))))))"

text \<open>
  \<^verbatim>\<open>DatabaseManager.create_backup\<close>: the \<^verbatim>\<open>except Exception\<close> clause around the whole
  body logs the exception and returns.
\<close>

definition create_backup ::
  "'fs os_module \<Rightarrow> DatabaseManager \<Rightarrow> datetime \<Rightarrow> 'fs \<Rightarrow> log \<Rightarrow> (exc + unit) \<times> 'fs \<times> log" where
  "create_backup os self now fs lg =
     (case create_backup_try os self now fs lg of
        (None, fs', lg') \<Rightarrow> (Inr (), fs', lg')
      | (Some e, fs', lg') \<Rightarrow>
          (Inr (), fs', lg' @ [(ERROR, ''Backup creation failed: '' @ str_exc e)]))"

subsection \<open>The handlers of the profile endpoints\<close>

text \<open>
  The state a request works on: the tables of the database file, the file system and
  the log. The module's global \<^verbatim>\<open>db\<close> is the \<^verbatim>\<open>DatabaseManager\<close>, or \<^verbatim>\<open>None\<close>
  when its construction failed. A handler returns the body it gives to \<^verbatim>\<open>jsonify\<close>
  and the status (200 when it names none). The clocks are parameters: \<open>now\<close> is
  \<^verbatim>\<open>datetime.now()\<close> as the handler reads it, \<open>utc\<close> the clock of the engine, and
  \<open>now_b\<close> is \<^verbatim>\<open>datetime.now()\<close> as the backup reads it.
\<close>

record 'fs state =
  store :: database
  fsys :: 'fs
  logged :: log

record response =
  status :: nat
  body :: json

definition jsonify_error :: "string \<Rightarrow> json" where
  "jsonify_error msg = JObj [(''ok'', JBool False), (''error'', JStr msg)]"

definition jsonify_message :: "string \<Rightarrow> json" where
  "jsonify_message msg = JObj [(''ok'', JBool True), (''message'', JStr msg)]"

definition jsonify_data :: "json \<Rightarrow> json" where
  "jsonify_data d = JObj [(''ok'', JBool True), (''data'', d)]"

definition not_available :: response where
  "not_available = \<lparr>status = 500, body = jsonify_error ''Database not available''\<rparr>"

text \<open>
  The \<^verbatim>\<open>try\<close> block of \<^verbatim>\<open>save_user_profile\<close> up to \<^verbatim>\<open>conn.commit()\<close>: the
  countries are serialised, the seventeen parameters evaluated in order, bound, and the
  \<^verbatim>\<open>INSERT OR REPLACE\<close> run. An exception leaves the tables as they were.
\<close>

definition save_user_profile_try :: "datetime \<Rightarrow> datetime \<Rightarrow> json \<Rightarrow> database \<Rightarrow> exc + database" where
  "save_user_profile_try now utc profile_data dbs =
     (case dict_get profile_data ''countries'' (JArr []) of
        Inl e \<Rightarrow> Inl e
      | Inr cs \<Rightarrow>
          (let countries_json = json_dumps cs
           in case sequence_exc
                [getitem profile_data ''profile_id'',
                 getitem profile_data ''user_id'',
                 dict_get profile_data ''user_role'' JNull,
                 dict_get profile_data ''student_name'' JNull,
                 dict_get profile_data ''student_email'' JNull,
                 dict_get profile_data ''parent_name'' JNull,
                 dict_get profile_data ''parent_email'' JNull,
                 dict_get profile_data ''relationship'' JNull,
                 dict_get profile_data ''child_name'' JNull,
                 dict_get profile_data ''child_email'' JNull,
                 dict_get profile_data ''citizenship'' JNull,
                 dict_get profile_data ''gpa'' JNull,
                 dict_get profile_data ''degree'' JNull,
                 Inr (JStr countries_json),
                 dict_get profile_data ''budget'' JNull,
                 dict_get profile_data ''target_intake'' JNull,
                 Inr (JStr (isoformat now))] of
                Inl e \<Rightarrow> Inl e
              | Inr values \<Rightarrow>
                  (case sequence_exc (map bind_param values) of
                     Inl e \<Rightarrow> Inl e
                   | Inr params \<Rightarrow>
                       (case sql_insert_or_replace ''user_profiles'' user_profiles_schema ''profile_id''
                               (zip [''profile_id'', ''user_id'', ''user_role'', ''student_name'',
                                     ''student_email'', ''parent_name'', ''parent_email'',
                                     ''relationship'', ''child_name'', ''child_email'', ''citizenship'',
                                     ''gpa'', ''degree'', ''countries'', ''budget'', ''target_intake'',
                                     ''updated_at''] params)
                               (current_timestamp utc) (user_profiles dbs) of
                          Inl e \<Rightarrow> Inl e
                        | Inr t \<Rightarrow> Inr (dbs\<lparr>user_profiles := t\<rparr>)))))"

text \<open>
  \<^verbatim>\<open>POST /api/profiles\<close>. After the commit the backup runs inside the same \<^verbatim>\<open>try\<close>;
  were it to raise, the handler would answer 500 with the row already written.
\<close>

definition save_user_profile ::
  "'fs os_module \<Rightarrow> DatabaseManager option \<Rightarrow> datetime \<Rightarrow> datetime \<Rightarrow> datetime \<Rightarrow> json
     \<Rightarrow> 'fs state \<Rightarrow> 'fs state \<times> response" where
  "save_user_profile os db now utc now_b profile_data st =
     (case db of
        None \<Rightarrow> (st, not_available)
      | Some m \<Rightarrow>
          (case save_user_profile_try now utc profile_data (store st) of
             Inl e \<Rightarrow>
               (st\<lparr>logged := logged st @ [(ERROR, ''Error saving user profile: '' @ str_exc e)]\<rparr>,
                \<lparr>status = 500, body = jsonify_error (str_exc e)\<rparr>)
           | Inr dbs \<Rightarrow>
               (case create_backup os m now_b (fsys st) (logged st) of
                  (Inl e, fs', lg') \<Rightarrow>
                    (\<lparr>store = dbs, fsys = fs',
                      logged = lg' @ [(ERROR, ''Error saving user profile: '' @ str_exc e)]\<rparr>,
                     \<lparr>status = 500, body = jsonify_error (str_exc e)\<rparr>)
                | (Inr _, fs', lg') \<Rightarrow>
                    (\<lparr>store = dbs, fsys = fs', logged = lg'\<rparr>,
                     \<lparr>status = 200, body = jsonify_message ''Profile saved successfully''\<rparr>))))"

text \<open>\<^verbatim>\<open>POST /api/backup\<close>.\<close>

definition create_backup_endpoint ::
  "'fs os_module \<Rightarrow> DatabaseManager option \<Rightarrow> datetime \<Rightarrow> 'fs state \<Rightarrow> 'fs state \<times> response" where
  "create_backup_endpoint os db now_b st =
     (case db of
        None \<Rightarrow> (st, not_available)
      | Some m \<Rightarrow>
          (case create_backup os m now_b (fsys st) (logged st) of
             (Inl e, fs', lg') \<Rightarrow>
               (st\<lparr>fsys := fs', logged := lg' @ [(ERROR, ''Error creating backup: '' @ str_exc e)]\<rparr>,
                \<lparr>status = 500, body = jsonify_error (str_exc e)\<rparr>)
           | (Inr _, fs', lg') \<Rightarrow>
               (st\<lparr>fsys := fs', logged := lg'\<rparr>,
                \<lparr>status = 200, body = jsonify_message ''Backup created successfully''\<rparr>)))"

text \<open>
  The block both read handlers run on column 14 of a row: \<^verbatim>\<open>countries = []\<close>, then,
  if the value is truthy, \<^verbatim>\<open>json.loads\<close> under a bare \<^verbatim>\<open>except\<close> that resets the
  list. \<^verbatim>\<open>json.loads\<close> of a number raises \<^verbatim>\<open>TypeError\<close>.
\<close>

fun truthy :: "sqlval \<Rightarrow> bool" where
  "truthy SNull = False"
| "truthy (SInt i) = (i \<noteq> 0)"
| "truthy (SReal t) = (t \<noteq> ''0.0'' \<and> t \<noteq> ''-0.0'')"
| "truthy (SText s) = (s \<noteq> [])"

fun loads_column :: "sqlval \<Rightarrow> exc + json" where
  "loads_column (SText s) =
     (case json_loads s of None \<Rightarrow> Inl (JSONDecodeError ''Expecting value'') | Some v \<Rightarrow> Inr v)"
| "loads_column _ = Inl (TypeError ''the JSON object must be str, bytes or bytearray'')"

definition decode_countries :: "sqlval \<Rightarrow> json" where
  "decode_countries v =
     (if truthy v then (case loads_column v of Inl e \<Rightarrow> JArr [] | Inr cs \<Rightarrow> cs) else JArr [])"

text \<open>The dictionary both read handlers build from the tuple of a row, index by index.\<close>

definition profile_dict :: "sqlval list \<Rightarrow> json" where
  "profile_dict row =
     (let countries = decode_countries (row ! 14)
      in JObj
           [(''id'', json_of_sql (row ! 0)),
            (''profile_id'', json_of_sql (row ! 1)),
            (''user_id'', json_of_sql (row ! 2)),
            (''user_role'', json_of_sql (row ! 3)),
            (''student_name'', json_of_sql (row ! 4)),
            (''student_email'', json_of_sql (row ! 5)),
            (''parent_name'', json_of_sql (row ! 6)),
            (''parent_email'', json_of_sql (row ! 7)),
            (''relationship'', json_of_sql (row ! 8)),
            (''child_name'', json_of_sql (row ! 9)),
            (''child_email'', json_of_sql (row ! 10)),
            (''citizenship'', json_of_sql (row ! 11)),
            (''gpa'', json_of_sql (row ! 12)),
            (''degree'', json_of_sql (row ! 13)),
            (''countries'', countries),
            (''budget'', json_of_sql (row ! 15)),
            (''target_intake'', json_of_sql (row ! 16)),
            (''created_at'', json_of_sql (row ! 17)),
            (''updated_at'', json_of_sql (row ! 18))])"

text \<open>
  \<^verbatim>\<open>GET /api/profiles/<profile_id>\<close>: \<^verbatim>\<open>fetchone\<close> of the rows whose \<^verbatim>\<open>profile_id\<close>
  is the text of the path.
\<close>

definition get_user_profile :: "DatabaseManager option \<Rightarrow> database \<Rightarrow> string \<Rightarrow> response" where
  "get_user_profile db dbs profile_id =
     (case db of
        None \<Rightarrow> not_available
      | Some m \<Rightarrow>
          (case find (\<lambda>r. r ''profile_id'' = SText profile_id) (rows (user_profiles dbs)) of
             Some r \<Rightarrow>
               \<lparr>status = 200, body = jsonify_data (profile_dict (select_star user_profiles_schema r))\<rparr>
           | None \<Rightarrow> \<lparr>status = 404, body = jsonify_error ''Profile not found''\<rparr>))"

text \<open>\<^verbatim>\<open>GET /api/users/<user_id>/profiles\<close>.\<close>

definition get_user_profiles :: "DatabaseManager option \<Rightarrow> database \<Rightarrow> string \<Rightarrow> response" where
  "get_user_profiles db dbs user_id =
     (case db of
        None \<Rightarrow> not_available
      | Some m \<Rightarrow>
          (let fetched = order_by_desc ''created_at''
                           (filter (\<lambda>r. r ''user_id'' = SText user_id) (rows (user_profiles dbs)))
           in \<lparr>status = 200,
               body = jsonify_data
                        (JArr (map (\<lambda>r. profile_dict (select_star user_profiles_schema r)) fetched))\<rparr>))"

text \<open>
  One \<^verbatim>\<open>if 'k' in data:\<close> block of \<^verbatim>\<open>update_user_profile\<close>: when the key is present,
  the column and the value \<^verbatim>\<open>data['k']\<close> are appended to the two lists (kept here as
  one list of pairs). For \<^verbatim>\<open>countries\<close> the value is serialised first.
\<close>

definition update_field :: "json \<Rightarrow> string \<Rightarrow> (string \<times> json) list \<Rightarrow> exc + (string \<times> json) list" where
  "update_field data k found =
     (case contains k data of
        Inl e \<Rightarrow> Inl e
      | Inr present \<Rightarrow>
          if present then
            (case getitem data k of
               Inl e \<Rightarrow> Inl e
             | Inr v \<Rightarrow> Inr (found @ [(k, if k = ''countries'' then JStr (json_dumps v) else v)]))
          else Inr found)"

fun update_fields_of :: "json \<Rightarrow> string list \<Rightarrow> (string \<times> json) list \<Rightarrow> exc + (string \<times> json) list" where
  "update_fields_of data [] found = Inr found"
| "update_fields_of data (k # ks) found =
     (case update_field data k found of
        Inl e \<Rightarrow> Inl e
      | Inr found' \<Rightarrow> update_fields_of data ks found')"

text \<open>The fourteen keys the handler looks for, in the order of its \<^verbatim>\<open>if\<close> blocks.\<close>

definition updatable_fields :: "string list" where
  "updatable_fields =
     [''student_name'', ''student_email'', ''parent_name'', ''parent_email'', ''relationship'',
      ''child_name'', ''child_email'', ''citizenship'', ''gpa'', ''degree'', ''countries'',
      ''budget'', ''target_intake'', ''user_role'']"

text \<open>
  The \<^verbatim>\<open>try\<close> block of \<^verbatim>\<open>update_user_profile\<close>: the timestamp is appended to the
  field list whatever the body holds, so the test \<^verbatim>\<open>if update_fields:\<close> that guards the
  \<^verbatim>\<open>UPDATE\<close> always passes.
\<close>

definition update_user_profile_try :: "datetime \<Rightarrow> string \<Rightarrow> json \<Rightarrow> database \<Rightarrow> exc + database" where
  "update_user_profile_try now profile_id data dbs =
     (case update_fields_of data updatable_fields [] of
        Inl e \<Rightarrow> Inl e
      | Inr found \<Rightarrow>
          (let update_fields = found @ [(''updated_at'', JStr (isoformat now))]
           in if update_fields \<noteq> [] then
                (case sequence_exc (map (\<lambda>kv. bind_param (snd kv)) update_fields) of
                   Inl e \<Rightarrow> Inl e
                 | Inr update_values \<Rightarrow>
                     (case sql_update ''user_profiles'' user_profiles_schema
                             (zip (map fst update_fields) update_values)
                             (\<lambda>r. r ''profile_id'' = SText profile_id) (user_profiles dbs) of
                        Inl e \<Rightarrow> Inl e
                      | Inr t \<Rightarrow> Inr (dbs\<lparr>user_profiles := t\<rparr>)))
              else Inr dbs))"

text \<open>\<^verbatim>\<open>PUT /api/profiles/<profile_id>\<close>.\<close>

definition update_user_profile ::
  "DatabaseManager option \<Rightarrow> datetime \<Rightarrow> string \<Rightarrow> json \<Rightarrow> 'fs state \<Rightarrow> 'fs state \<times> response" where
  "update_user_profile db now profile_id data st =
     (case db of
        None \<Rightarrow> (st, not_available)
      | Some m \<Rightarrow>
          (case update_user_profile_try now profile_id data (store st) of
             Inl e \<Rightarrow>
               (st\<lparr>logged := logged st @ [(ERROR, ''Error updating user profile: '' @ str_exc e)]\<rparr>,
                \<lparr>status = 500, body = jsonify_error (str_exc e)\<rparr>)
           | Inr dbs \<Rightarrow>
               (st\<lparr>store := dbs\<rparr>,
                \<lparr>status = 200, body = jsonify_message ''Profile updated successfully''\<rparr>)))"

subsection \<open>The handlers of the message endpoints\<close>

definition save_chat_message_try :: "datetime \<Rightarrow> json \<Rightarrow> database \<Rightarrow> exc + database" where
  "save_chat_message_try utc message_data dbs =
     (case sequence_exc
             [dict_get message_data ''profile_id'' JNull,
              dict_get message_data ''user_id'' JNull,
              dict_get message_data ''message_type'' JNull,
              dict_get message_data ''message_content'' JNull,
              dict_get message_data ''language'' (JStr ''zh''),
              dict_get message_data ''user_role'' JNull] of
        Inl e \<Rightarrow> Inl e
      | Inr values \<Rightarrow>
          (case sequence_exc (map bind_param values) of
             Inl e \<Rightarrow> Inl e
           | Inr params \<Rightarrow>
               (case sql_insert ''chat_messages'' chat_messages_schema
                       (zip [''profile_id'', ''user_id'', ''message_type'', ''message_content'',
                             ''language'', ''user_role''] params)
                       (current_timestamp utc) (chat_messages dbs) of
                  Inl e \<Rightarrow> Inl e
                | Inr t \<Rightarrow> Inr (dbs\<lparr>chat_messages := t\<rparr>))))"

text \<open>\<^verbatim>\<open>POST /api/messages\<close>.\<close>

definition save_chat_message ::
  "DatabaseManager option \<Rightarrow> datetime \<Rightarrow> json \<Rightarrow> 'fs state \<Rightarrow> 'fs state \<times> response" where
  "save_chat_message db utc message_data st =
     (case db of
        None \<Rightarrow> (st, not_available)
      | Some m \<Rightarrow>
          (case save_chat_message_try utc message_data (store st) of
             Inl e \<Rightarrow>
               (st\<lparr>logged := logged st @ [(ERROR, ''Error saving chat message: '' @ str_exc e)]\<rparr>,
                \<lparr>status = 500, body = jsonify_error (str_exc e)\<rparr>)
           | Inr dbs \<Rightarrow>
               (st\<lparr>store := dbs\<rparr>,
                \<lparr>status = 200, body = jsonify_message ''Message saved successfully''\<rparr>)))"










subsection \<open>A small state\<close>

text \<open>
  One stored profile whose \<^verbatim>\<open>countries\<close> column does not hold JSON, a manager, a
  clock reading and a state without file system: the concrete inputs of the examples
  below.
\<close>

definition example_row :: row where
  "example_row =
     (\<lambda>c. SNull)
       (''id'' := SInt 1, ''profile_id'' := SText ''p1'', ''user_id'' := SText ''u1'',
        ''user_role'' := SText ''student'', ''countries'' := SText ''{not json'',
        ''budget'' := SInt 100, ''created_at'' := SText ''2024-01-01 00:00:00'',
        ''updated_at'' := SText ''2024-01-01T00:00:00'')"

definition example_db :: database where
  "example_db = \<lparr>user_profiles = \<lparr>rows = [example_row], seq = 1\<rparr>,
                  chat_messages = \<lparr>rows = [], seq = 0\<rparr>\<rparr>"

definition example_manager :: DatabaseManager where
  "example_manager = \<lparr>db_path = ''/data/ai_study_advisor.db''\<rparr>"

definition example_now :: datetime where
  "example_now = \<lparr>year = 2024, month = 5, day = 6, hour = 7, minute = 8, second = 9, microsecond = 0\<rparr>"

definition example_state :: "unit state" where
  "example_state = \<lparr>store = example_db, fsys = (), logged = []\<rparr>"

text \<open>A file system that refuses every call.\<close>

definition deny_os :: "unit os_module" where
  "deny_os =
     \<lparr>os_makedirs = (\<lambda>p fs. (Some (OSError ''Permission denied''), fs)),
      open_write = (\<lambda>p s fs. (Some (OSError ''Permission denied''), fs)),
      os_remove = (\<lambda>p fs. (Some (OSError ''Permission denied''), fs)),
      shutil_copy2 = (\<lambda>p q fs. (Some (OSError ''Permission denied''), fs)),
      os_listdir = (\<lambda>p fs. (Inl (OSError ''Permission denied''), fs))\<rparr>"


text \<open>A profile of two target countries.\<close>

definition example_profile :: json where
  "example_profile =
     JObj [(''profile_id'', JStr ''p2''), (''user_id'', JStr ''u1''), (''user_role'', JStr ''student''),
           (''countries'', JArr [JStr ''US'', JStr ''UK''])]"

section \<open>Properties\<close>

subsection \<open>The codec on a list of strings\<close>

text \<open>
  What \<^const>\<open>json_dumps\<close> writes for a list of strings, \<^const>\<open>json_loads\<close> reads back:
  every character is either kept or escaped, and the scanner undoes each escape.
\<close>

lemma hex_val_hex_char: "d < 16 \<Longrightarrow> hex_val (hex_char d) = Some d"
proof -
  assume "d < 16"
  then consider "d < 10" | "10 \<le> d \<and> d < 16" by linarith
  then show ?thesis
  proof cases
    case 1
    then show ?thesis by (simp add: hex_val_def hex_char_def Let_def)
  next
    case 2
    then show ?thesis by (simp add: hex_val_def hex_char_def Let_def)
  qed
qed

lemma of_char_high_digits:
  fixes c :: char
  shows "(of_char c :: nat) div 4096 mod 16 = 0" and "(of_char c :: nat) div 256 mod 16 = 0"
proof -
  have "(of_char c :: nat) < 256" by (rule nat_of_char_less_256)
  then have "(of_char c :: nat) < 4096" by (rule less_trans) simp
  then have a: "(of_char c :: nat) div 4096 = 0" by (rule div_less)
  have b: "(of_char c :: nat) div 256 = 0" by (rule div_less) (rule nat_of_char_less_256)
  show "(of_char c :: nat) div 4096 mod 16 = 0" by (simp only: a mod_0)
  show "(of_char c :: nat) div 256 mod 16 = 0" by (simp only: b mod_0)
qed


lemma low_digits:
  fixes c :: char
  shows "((0 * 16 + 0) * 16 + (of_char c :: nat) div 16 mod 16) * 16 + of_char c mod 16 = (of_char c :: nat)"
proof -
  have "(of_char c :: nat) < 256" by (rule nat_of_char_less_256)
  then have "(of_char c :: nat) div 16 < 16" by (simp add: less_mult_imp_div_less)
  then have "(of_char c :: nat) div 16 mod 16 = of_char c div 16" by (rule mod_less)
  then show ?thesis by simp
qed

lemma decode_uXXXX_char:
  fixes c :: char
  shows "decode_uXXXX
           (hex_char 0 # hex_char 0
            # hex_char (of_char c div 16 mod 16) # hex_char (of_char c mod 16) # r)
         = Some (c, r)"
proof -
  have h0: "hex_val (hex_char 0) = Some 0" by (rule hex_val_hex_char) simp
  have h1: "hex_val (hex_char ((of_char c :: nat) div 16 mod 16)) = Some (of_char c div 16 mod 16)"
    by (rule hex_val_hex_char) simp
  have h2: "hex_val (hex_char ((of_char c :: nat) mod 16)) = Some (of_char c mod 16)"
    by (rule hex_val_hex_char) simp
  have "char_of (of_char c :: nat) = c" by simp
  then show ?thesis
    by (simp only: decode_uXXXX.simps h0 h1 h2 prod.case option.case low_digits)
qed


lemma scanstring_backslash_u:
  "scanstring (CHR 0x5C # CHR ''u'' # cs') =
     (case decode_uXXXX cs' of
        None \<Rightarrow> None
      | Some (ch, rest) \<Rightarrow>
          (case scanstring (drop 4 cs') of None \<Rightarrow> None | Some (t, r) \<Rightarrow> Some (ch # t, r)))"
  by simp

lemma scanstring_escape_char:
  "scanstring (escape_char c @ r) =
     (case scanstring r of None \<Rightarrow> None | Some (t, r') \<Rightarrow> Some (c # t, r'))"
proof -
  consider (bs) "c = CHR 0x5C" | (qu) "c = CHR 0x22" | (b) "c = CHR 0x08" | (f) "c = CHR 0x0C"
    | (n) "c = CHR 0x0A" | (r) "c = CHR 0x0D" | (t) "c = CHR 0x09"
    | (plain) "c \<noteq> CHR 0x5C" "c \<noteq> CHR 0x22" "0x20 \<le> (of_char c :: nat)" "(of_char c :: nat) \<le> 0x7E"
    | (uni) "c \<noteq> CHR 0x5C" "c \<noteq> CHR 0x22" "c \<noteq> CHR 0x08" "c \<noteq> CHR 0x0C" "c \<noteq> CHR 0x0A"
            "c \<noteq> CHR 0x0D" "c \<noteq> CHR 0x09"
            "\<not> (0x20 \<le> (of_char c :: nat) \<and> (of_char c :: nat) \<le> 0x7E)"
    by blast
  then show ?thesis
  proof cases
    case plain
    then have "escape_char c = [c]"
      by (auto simp: escape_char_def)
    moreover have "\<not> (of_char c :: nat) < 0x20" using plain by simp
    ultimately show ?thesis using plain by (simp split: option.splits)
  next
    case uni
    then have "escape_char c = [CHR 0x5C, CHR ''u'', hex_char 0, hex_char 0,
            hex_char (of_char c div 16 mod 16), hex_char (of_char c mod 16)]"
      by (simp add: escape_char_def of_char_high_digits)
    then have "escape_char c @ r = CHR 0x5C # CHR ''u'' # (hex_char 0 # hex_char 0 #
            hex_char (of_char c div 16 mod 16) # hex_char (of_char c mod 16) # r)"
      by simp
    moreover have "drop 4 (hex_char 0 # hex_char 0 #
            hex_char (of_char c div 16 mod 16) # hex_char (of_char c mod 16) # r) = r"
      by simp
    ultimately show ?thesis
      by (simp only: scanstring_backslash_u decode_uXXXX_char option.case prod.case)
  qed (simp_all add: escape_char_def backslash_def split: option.splits)
qed


lemma scanstring_escaped:
  "scanstring (concat (map escape_char s) @ CHR 0x22 # r) = Some (s, r)"
proof (induction s)
  case Nil
  then show ?case by simp
next
  case (Cons c s)
  have "scanstring (concat (map escape_char (c # s)) @ CHR 0x22 # r)
        = scanstring (escape_char c @ (concat (map escape_char s) @ CHR 0x22 # r))"
    by simp
  also have "\<dots> = Some (c # s, r)"
    unfolding scanstring_escape_char using Cons.IH by simp
  finally show ?case .
qed

lemma scan_once_string:
  "scan_once (Suc n) (encode_basestring_ascii s @ r) = Some (JStr s, r)"
  by (simp add: encode_basestring_ascii_def scanstring_escaped)


lemma skip_ws_not_ws: "\<not> is_ws c \<Longrightarrow> skip_ws (c # r) = c # r"
  by (simp add: skip_ws_def)

lemma skip_ws_space: "skip_ws (CHR '' '' # r) = skip_ws r"
  by (simp add: skip_ws_def is_ws_def)

lemma skip_ws_quote: "skip_ws (encode_basestring_ascii s @ r) = encode_basestring_ascii s @ r"
  by (simp add: encode_basestring_ascii_def skip_ws_def is_ws_def)

lemma parse_array_step:
  "parse_array (Suc n) s =
     (case scan_once n s of
        None \<Rightarrow> None
      | Some (v, r) \<Rightarrow>
          (case skip_ws r of
             [] \<Rightarrow> None
           | d # r1 \<Rightarrow>
               if d = CHR '']'' then Some ([v], r1)
               else if d = CHR '','' then
                 (case parse_array n (skip_ws r1) of
                    None \<Rightarrow> None
                  | Some (vs, r') \<Rightarrow> Some (v # vs, r'))
               else None))"
  by simp

lemma dumps_strings_simps:
  "dumps_strings [] = []"
  "dumps_strings [c] = encode_basestring_ascii c"
  "dumps_strings (c # d # ds) = encode_basestring_ascii c @ CHR '','' # CHR '' '' # dumps_strings (d # ds)"
  by (simp_all add: dumps_strings_def)

lemma skip_ws_dumps_strings:
  "cs \<noteq> [] \<Longrightarrow> skip_ws (dumps_strings cs @ r) = dumps_strings cs @ r"
proof (cases cs)
  case Nil
  assume "cs \<noteq> []"
  with Nil show ?thesis by simp
next
  case (Cons c ds)
  then show ?thesis
    by (cases ds) (simp_all add: dumps_strings_simps skip_ws_quote)
qed

lemma parse_array_strings:
  "cs \<noteq> [] \<Longrightarrow> 2 * length cs \<le> n \<Longrightarrow>
     parse_array n (dumps_strings cs @ CHR '']'' # r) = Some (map JStr cs, r)"
proof (induction cs arbitrary: n)
  case Nil
  then show ?case by simp
next
  case (Cons c cs)
  from Cons.prems(2) obtain n' where n: "n = Suc (Suc n')" and n': "2 * length cs \<le> n'"
    by (cases n; cases "n - 1") auto
  show ?case
  proof (cases cs)
    case Nil
    have "parse_array (Suc (Suc n')) (encode_basestring_ascii c @ CHR '']'' # r) = Some ([JStr c], r)"
      by (subst parse_array_step) (simp add: scan_once_string skip_ws_not_ws is_ws_def del: scan_once.simps)
    then show ?thesis using Nil n by (simp add: dumps_strings_simps)
  next
    case (Cons d ds)
    define rest where "rest = dumps_strings cs @ CHR '']'' # r"
    have ih: "parse_array (Suc n') rest = Some (map JStr cs, r)"
      unfolding rest_def using Cons.IH [of "Suc n'"] n' Cons by simp
    have s: "skip_ws rest = rest"
      unfolding rest_def using Cons by (simp add: skip_ws_dumps_strings)
    have j: "dumps_strings (c # cs) @ CHR '']'' # r
             = encode_basestring_ascii c @ (CHR '','' # CHR '' '' # rest)"
      unfolding rest_def using Cons by (simp add: dumps_strings_simps)
    have "parse_array (Suc (Suc n')) (encode_basestring_ascii c @ (CHR '','' # CHR '' '' # rest))
          = Some (JStr c # map JStr cs, r)"
      by (subst parse_array_step)
         (simp add: scan_once_string skip_ws_not_ws is_ws_def skip_ws_space s ih
            del: scan_once.simps parse_array.simps)
    then show ?thesis unfolding j n by simp
  qed
qed

lemma length_le_dumps_strings: "length cs \<le> length (dumps_strings cs)"
proof (induction cs)
  case Nil
  then show ?case by simp
next
  case (Cons c cs)
  then show ?case
    by (cases cs) (simp_all add: dumps_strings_simps encode_basestring_ascii_def)
qed

lemma scan_once_array_step:
  "scan_once (Suc n) (CHR ''['' # CHR 0x22 # t) =
     (case parse_array n (CHR 0x22 # t) of
        None \<Rightarrow> None
      | Some (vs, r') \<Rightarrow> Some (JArr vs, r'))"
  by (simp add: skip_ws_not_ws is_ws_def)

lemma loads_dumps_empty: "json_loads (json_dumps (JArr [])) = Some (JArr [])"
  by code_simp

lemma loads_dumps_strings:
  "json_loads (json_dumps (JArr (map JStr cs))) = Some (JArr (map JStr cs))"
proof (cases cs)
  case Nil
  then show ?thesis by (simp only: list.map loads_dumps_empty)
next
  case (Cons c ds)
  let ?j = "dumps_strings cs"
  have d: "json_dumps (JArr (map JStr cs)) = CHR ''['' # ?j @ '']''"
    by (simp add: dumps_strings_def)
  obtain t where j: "?j = CHR 0x22 # t"
    using Cons by (cases ds) (simp_all add: dumps_strings_simps encode_basestring_ascii_def)
  have f: "2 * length cs \<le> 2 * length ?j + 5"
    using length_le_dumps_strings [of cs] by simp
  have pa: "parse_array (2 * length ?j + 5) (?j @ CHR '']'' # []) = Some (map JStr cs, [])"
    by (rule parse_array_strings) (use Cons f in simp_all)
  have "scan_once (Suc (2 * length ?j + 5)) (CHR ''['' # ?j @ '']'') = Some (JArr (map JStr cs), [])"
    using pa unfolding j by (simp only: append_Cons scan_once_array_step option.case prod.case)
  moreover have "2 * length (CHR ''['' # ?j @ '']'') + 2 = Suc (2 * length ?j + 5)" by simp
  moreover have "skip_ws (CHR ''['' # ?j @ '']'') = CHR ''['' # ?j @ '']''"
    by (simp add: skip_ws_not_ws is_ws_def)
  moreover have "skip_ws [] = []" by (simp add: skip_ws_def)
  ultimately show ?thesis
    unfolding d json_loads_def by (simp only: option.case prod.case) simp
qed

lemma dumps_array_nonempty: "json_dumps (JArr vs) \<noteq> []"
  by simp

text \<open>
  C10. The claim is that constructing a \<^verbatim>\<open>DatabaseClient\<close> with no \<^verbatim>\<open>base_url\<close>
  succeeds and takes the base URL from the environment variable
  \<^verbatim>\<open>DATABASE_SERVICE_URL\<close> or the default host. The module never imports \<^verbatim>\<open>os\<close>, so
  the constructor called with no argument raises \<^verbatim>\<open>NameError\<close> whatever the
  environment holds: no client is constructed.
\<close>

theorem DatabaseClient_init_no_argument_raises:
  "DatabaseClient_init environ None = Inl (NameError ''os'')"
  by (simp add: DatabaseClient_init_def global_name_def client_module_names_def)

subsection \<open>The client's error envelope\<close>

text \<open>
  Every method is one pass through \<^verbatim>\<open>_make_request\<close> with the request
  \<^const>\<open>request_of\<close> describes: what it returns is decided by the session's answer, the
  status check and the decoding of the body, in this order.
\<close>

lemma call_method_request:
  "call_method self session c =
     (case session (request_of self c) of
        Inl e \<Rightarrow> Inr (error_envelope e)
      | Inr r \<Rightarrow>
          (case raise_for_status (request_of self c) r of
             Inl e \<Rightarrow> Inr (error_envelope e)
           | Inr _ \<Rightarrow>
               (case response_json r of Inl e \<Rightarrow> Inr (error_envelope e) | Inr v \<Rightarrow> Inr v)))"
  by (cases c)
     (simp_all add: client_health_check_def client_save_user_def client_get_user_def
        client_get_user_profiles_def client_save_user_profile_def client_get_user_profile_def
        client_update_user_profile_def client_save_chat_message_def client_get_chat_messages_def
        client_save_usage_stat_def client_get_usage_stats_def client_create_backup_def
        make_request_def make_request_try_def split: sum.splits)

lemma loads_dumps_ok_true:
  "json_loads (json_dumps (JObj [(''ok'', JBool True)])) = Some (JObj [(''ok'', JBool True)])"
  by code_simp

text \<open>
  C9, as stated, fails. The claim is that every method returns the
  \<^verbatim>\<open>{"ok": false, "error": ...}\<close> envelope on any non-2xx status. A response with
  status 300 (a redirection status that carries no \<^verbatim>\<open>Location\<close> header is handed to the
  caller as it is) passes \<^verbatim>\<open>raise_for_status\<close>, and its body is decoded and returned:
  here \<^verbatim>\<open>health_check\<close> returns \<^verbatim>\<open>{"ok": true}\<close>.
\<close>

theorem call_method_status_300_counterexample:
  "call_method \<lparr>base_url = ''http://db''\<rparr>
     (\<lambda>rq. Inr \<lparr>status_code = 300, content = json_dumps (JObj [(''ok'', JBool True)])\<rparr>)
     Health_check = Inr (JObj [(''ok'', JBool True)])"
  unfolding call_method_request
  by (simp add: raise_for_status_def response_json_def loads_dumps_ok_true del: json_dumps.simps)

text \<open>
  C9, amended. Every method of the client returns and never raises, whatever the session
  does. When the session raises an exception \<open>e\<close> (a connection error), the method
  returns the envelope \<^verbatim>\<open>{"ok": false, "error": str(e)}\<close>; when the response has a
  client-error or server-error status (400 to 599), it returns the envelope with the
  message of the \<^verbatim>\<open>HTTPError\<close>; when the body of the response does not decode as JSON,
  it returns an envelope as well.
\<close>

theorem call_method_returns_envelope:
  "(\<exists>v. call_method self session c = Inr v) \<and>
   (\<forall>e. session (request_of self c) = Inl e \<longrightarrow>
        call_method self session c = Inr (error_envelope e)) \<and>
   (\<forall>r. session (request_of self c) = Inr r \<and> 400 \<le> status_code r \<and> status_code r < 600 \<longrightarrow>
        (\<exists>m. call_method self session c = Inr (error_envelope (HTTPError m)))) \<and>
   (\<forall>r. session (request_of self c) = Inr r \<and> json_loads (content r) = None \<longrightarrow>
        (\<exists>e. call_method self session c = Inr (error_envelope e)))"
  unfolding call_method_request
  by (auto simp: raise_for_status_def response_json_def split: sum.splits option.splits)

theorem call_method_returns_envelope_witness:
  "\<exists>m. call_method \<lparr>base_url = ''http://db''\<rparr>
     (\<lambda>rq. Inr \<lparr>status_code = 500, content = ''oops''\<rparr>) (Get_user ''u1'')
   = Inr (JObj [(''ok'', JBool False), (''error'', JStr m)])"
  using call_method_returns_envelope [of "\<lparr>base_url = ''http://db''\<rparr>"
     "\<lambda>rq. Inr \<lparr>status_code = 500, content = ''oops''\<rparr>" "Get_user ''u1''"]
  by (simp add: error_envelope_def)

subsection \<open>Reading profiles\<close>

text \<open>
  C6. For every \<^verbatim>\<open>profile_id\<close> that no row of \<^verbatim>\<open>user_profiles\<close> holds,
  \<^verbatim>\<open>GET /api/profiles/<profile_id>\<close> on an available store answers with status 404 and the
  body \<^verbatim>\<open>{"ok": false, "error": "Profile not found"}\<close>, which has no \<^verbatim>\<open>data\<close> field.
\<close>

theorem get_user_profile_not_found:
  assumes "list_all (\<lambda>r. r ''profile_id'' \<noteq> SText pid) (rows (user_profiles dbs))"
  shows "get_user_profile (Some m) dbs pid =
           \<lparr>status = 404, body = JObj [(''ok'', JBool False), (''error'', JStr ''Profile not found'')]\<rparr>
         \<and> contains ''data'' (body (get_user_profile (Some m) dbs pid)) = Inr False"
proof -
  have "find (\<lambda>r. r ''profile_id'' = SText pid) (rows (user_profiles dbs)) = None"
    using assms by (simp add: find_None_iff list_all_iff)
  then show ?thesis
    by (simp add: get_user_profile_def jsonify_error_def)
qed

theorem get_user_profile_not_found_witness:
  "get_user_profile (Some example_manager) example_db ''p2'' =
     \<lparr>status = 404, body = JObj [(''ok'', JBool False), (''error'', JStr ''Profile not found'')]\<rparr>"
  using get_user_profile_not_found [of "''p2''" example_db example_manager]
  by (simp add: example_db_def example_row_def)

lemma decode_countries_unreadable:
  "v = SNull \<or> (\<exists>t. v = SText t \<and> json_loads t = None) \<Longrightarrow> decode_countries v = JArr []"
  by (auto simp: decode_countries_def)

lemma profile_dict_countries:
  "getitem (profile_dict (select_star user_profiles_schema r)) ''countries''
     = Inr (decode_countries (r ''countries''))"
  by (simp add: profile_dict_def select_star_def user_profiles_schema_def)

lemma set_order_by_desc: "set (order_by_desc c rs) = set rs"
  by (simp add: order_by_desc_def)

lemma loads_not_json: "json_loads ''{not json'' = None"
  by code_simp

text \<open>
  C8. A stored row whose \<^verbatim>\<open>countries\<close> column is \<^verbatim>\<open>NULL\<close> or holds text that
  \<^verbatim>\<open>json.loads\<close> rejects (the empty text among it) is served with \<^verbatim>\<open>countries\<close> the
  empty list and status 200 by both read endpoints: by \<^verbatim>\<open>GET /api/profiles/<profile_id>\<close>
  when the row is the one fetched, and by \<^verbatim>\<open>GET /api/users/<user_id>/profiles\<close> as one
  of the listed profiles when the row belongs to the user.
\<close>

theorem read_endpoints_unreadable_countries:
  assumes "r ''countries'' = SNull \<or> (\<exists>t. r ''countries'' = SText t \<and> json_loads t = None)"
  shows "(find (\<lambda>r. r ''profile_id'' = SText pid) (rows (user_profiles dbs)) = Some r \<longrightarrow>
            status (get_user_profile (Some m) dbs pid) = 200 \<and>
            (\<exists>d. body (get_user_profile (Some m) dbs pid) = JObj [(''ok'', JBool True), (''data'', d)]
                 \<and> getitem d ''countries'' = Inr (JArr [])))
       \<and> (r \<in> set (rows (user_profiles dbs)) \<and> r ''user_id'' = SText uid \<longrightarrow>
            status (get_user_profiles (Some m) dbs uid) = 200 \<and>
            (\<exists>ds d. body (get_user_profiles (Some m) dbs uid) = JObj [(''ok'', JBool True), (''data'', JArr ds)]
                 \<and> d \<in> set ds \<and> d = profile_dict (select_star user_profiles_schema r)
                 \<and> getitem d ''countries'' = Inr (JArr [])))"
proof -
  have c: "getitem (profile_dict (select_star user_profiles_schema r)) ''countries'' = Inr (JArr [])"
    using assms by (simp only: profile_dict_countries decode_countries_unreadable)
  show ?thesis
  proof (intro conjI impI)
    assume "find (\<lambda>r. r ''profile_id'' = SText pid) (rows (user_profiles dbs)) = Some r"
    then show "status (get_user_profile (Some m) dbs pid) = 200"
      and "\<exists>d. body (get_user_profile (Some m) dbs pid) = JObj [(''ok'', JBool True), (''data'', d)]
                 \<and> getitem d ''countries'' = Inr (JArr [])"
      using c by (simp_all add: get_user_profile_def jsonify_data_def)
  next
    assume a: "r \<in> set (rows (user_profiles dbs)) \<and> r ''user_id'' = SText uid"
    show "status (get_user_profiles (Some m) dbs uid) = 200"
      by (simp add: get_user_profiles_def)
    have "r \<in> set (order_by_desc ''created_at''
                     (filter (\<lambda>r. r ''user_id'' = SText uid) (rows (user_profiles dbs))))"
      using a by (simp add: set_order_by_desc)
    then show "\<exists>ds d. body (get_user_profiles (Some m) dbs uid) = JObj [(''ok'', JBool True), (''data'', JArr ds)]
                 \<and> d \<in> set ds \<and> d = profile_dict (select_star user_profiles_schema r)
                 \<and> getitem d ''countries'' = Inr (JArr [])"
      using c by (simp add: get_user_profiles_def jsonify_data_def)
  qed
qed

theorem read_endpoints_unreadable_countries_witness:
  "(\<exists>d. body (get_user_profile (Some example_manager) example_db ''p1'')
           = JObj [(''ok'', JBool True), (''data'', d)]
        \<and> getitem d ''countries'' = Inr (JArr []))
   \<and> (\<exists>ds d. body (get_user_profiles (Some example_manager) example_db ''u1'')
           = JObj [(''ok'', JBool True), (''data'', JArr ds)]
        \<and> d \<in> set ds \<and> getitem d ''countries'' = Inr (JArr []))"
proof -
  have h: "example_row ''countries'' = SNull
           \<or> (\<exists>t. example_row ''countries'' = SText t \<and> json_loads t = None)"
    by (simp add: example_row_def loads_not_json)
  have f: "find (\<lambda>r. r ''profile_id'' = SText ''p1'') (rows (user_profiles example_db)) = Some example_row"
    by (simp add: example_db_def example_row_def)
  have u: "example_row \<in> set (rows (user_profiles example_db)) \<and> example_row ''user_id'' = SText ''u1''"
    by (simp add: example_db_def example_row_def)
  show ?thesis
    using read_endpoints_unreadable_countries
            [of example_row "''p1''" example_db example_manager "''u1''"] h f u
    by blast
qed

subsection \<open>Partial updates\<close>

lemma not_null_violation_none:
  "list_all (\<lambda>col. \<not> not_null col) cols \<Longrightarrow> not_null_violation tname cols r = None"
proof -
  assume "list_all (\<lambda>col. \<not> not_null col) cols"
  then have "find (\<lambda>col. not_null col \<and> r (col_name col) = SNull) cols = None"
    by (auto simp: find_None_iff list_all_iff)
  then show ?thesis by (simp add: not_null_violation_def)
qed

lemma map_filter_none: "List.map_filter (\<lambda>r. if c r then None else None) xs = []"
  by (simp add: List.map_filter_def)

lemma update_fields_of_unrecognized:
  "list_all (\<lambda>k. k \<notin> fst ` set kvs) ks \<Longrightarrow> update_fields_of (JObj kvs) ks acc = Inr acc"
  by (induction ks arbitrary: acc) (simp_all add: update_field_def)

text \<open>
  C7. When the body of \<^verbatim>\<open>PUT /api/profiles/<profile_id>\<close> is a dictionary with none of
  the fourteen recognised keys, the \<^verbatim>\<open>UPDATE\<close> still runs: in every row of that
  \<^verbatim>\<open>profile_id\<close> the column \<^verbatim>\<open>updated_at\<close> takes the time of the request, every other
  column and every other row is as before, and the answer is the success message with
  status 200.
\<close>

theorem update_without_recognized_field:
  assumes "list_all (\<lambda>k. k \<notin> fst ` set kvs) updatable_fields"
  shows "update_user_profile (Some m) now pid (JObj kvs) st =
           (st\<lparr>store := (store st)\<lparr>user_profiles := (user_profiles (store st))
                 \<lparr>rows := map (\<lambda>r. if r ''profile_id'' = SText pid
                                    then r(''updated_at'' := SText (isoformat now)) else r)
                               (rows (user_profiles (store st)))\<rparr>\<rparr>\<rparr>,
            \<lparr>status = 200,
             body = JObj [(''ok'', JBool True), (''message'', JStr ''Profile updated successfully'')]\<rparr>)"
proof -
  have f: "update_fields_of (JObj kvs) updatable_fields [] = Inr []"
    using assms by (rule update_fields_of_unrecognized)
  have v: "not_null_violation ''user_profiles''
             (filter (\<lambda>col. col_name col \<in> fst ` set [(''updated_at'', SText (isoformat now))])
                user_profiles_schema) r' = None" for r'
    by (rule not_null_violation_none) (simp add: user_profiles_schema_def)
  have u: "sql_update ''user_profiles'' user_profiles_schema [(''updated_at'', SText (isoformat now))]
             (\<lambda>r. r ''profile_id'' = SText pid) t =
           Inr (t\<lparr>rows := map (\<lambda>r. if r ''profile_id'' = SText pid
                                    then r(''updated_at'' := SText (isoformat now)) else r) (rows t)\<rparr>)" for t
    unfolding sql_update_def Let_def v map_filter_none
    by (simp add: set_column_def find_column_def user_profiles_schema_def)
  show ?thesis
    by (simp add: update_user_profile_def update_user_profile_try_def f u jsonify_message_def)
qed

theorem update_without_recognized_field_witness:
  "status (snd (update_user_profile (Some example_manager) example_now ''p1''
                  (JObj [(''nickname'', JStr ''x'')]) example_state)) = 200
   \<and> map (\<lambda>r. (r ''budget'', r ''updated_at''))
         (rows (user_profiles (store (fst (update_user_profile (Some example_manager) example_now ''p1''
                  (JObj [(''nickname'', JStr ''x'')]) example_state)))))
     = [(SInt 100, SText (isoformat example_now))]"
  using update_without_recognized_field [of "[(''nickname'', JStr ''x'')]" example_manager example_now
           "''p1''" example_state]
  by (simp add: updatable_fields_def example_state_def example_db_def example_row_def)



subsection \<open>Backups\<close>

lemma create_backup_returns: "fst (create_backup os m now_b fs lg) = Inr ()"
  by (simp add: create_backup_def split: prod.splits option.splits)

text \<open>
  C5. The backup never makes the request fail, whatever the file system does:
  \<^verbatim>\<open>DatabaseManager.create_backup\<close> always returns; \<^verbatim>\<open>POST /api/backup\<close> on an
  available store always answers with its success message and status 200; and
  \<^verbatim>\<open>POST /api/profiles\<close>, once its row is written, answers with its success message and
  status 200 and keeps the row. An exception raised by a step of the backup is logged
  as \<^verbatim>\<open>Backup creation failed: ...\<close>, and when no candidate directory passes the
  write test a warning is logged.
\<close>

theorem backup_never_fails_request:
  "fst (create_backup os m now_b fs lg) = Inr ()
   \<and> snd (create_backup_endpoint os (Some m) now_b st) =
       \<lparr>status = 200, body = JObj [(''ok'', JBool True), (''message'', JStr ''Backup created successfully'')]\<rparr>
   \<and> (\<forall>dbs. save_user_profile_try now utc profile_data (store st) = Inr dbs \<longrightarrow>
         snd (save_user_profile os (Some m) now utc now_b profile_data st) =
           \<lparr>status = 200, body = JObj [(''ok'', JBool True), (''message'', JStr ''Profile saved successfully'')]\<rparr>
         \<and> store (fst (save_user_profile os (Some m) now utc now_b profile_data st)) = dbs)
   \<and> (\<forall>e. fst (create_backup_try os m now_b fs lg) = Some e \<longrightarrow>
         (\<exists>lg'. snd (snd (create_backup os m now_b fs lg)) =
                 lg' @ [(ERROR, ''Backup creation failed: '' @ str_exc e)]))
   \<and> (fst (probe_dirs os (backup_dirs m) fs lg) = None \<longrightarrow>
         (\<exists>lg'. snd (snd (create_backup os m now_b fs lg)) =
                 lg' @ [(WARNING, ''No writable backup directory found'')]))"
proof (intro conjI allI impI)
  show "fst (create_backup os m now_b fs lg) = Inr ()"
    by (rule create_backup_returns)
next
  show "snd (create_backup_endpoint os (Some m) now_b st) =
       \<lparr>status = 200, body = JObj [(''ok'', JBool True), (''message'', JStr ''Backup created successfully'')]\<rparr>"
    using create_backup_returns [of os m now_b "fsys st" "logged st"]
    by (auto simp: create_backup_endpoint_def jsonify_message_def split: prod.splits sum.splits)
next
  fix dbs assume a: "save_user_profile_try now utc profile_data (store st) = Inr dbs"
  show "snd (save_user_profile os (Some m) now utc now_b profile_data st) =
           \<lparr>status = 200, body = JObj [(''ok'', JBool True), (''message'', JStr ''Profile saved successfully'')]\<rparr>"
    using create_backup_returns [of os m now_b "fsys st" "logged st"] a
    by (auto simp: save_user_profile_def jsonify_message_def split: prod.splits sum.splits)
  show "store (fst (save_user_profile os (Some m) now utc now_b profile_data st)) = dbs"
    using create_backup_returns [of os m now_b "fsys st" "logged st"] a
    by (auto simp: save_user_profile_def split: prod.splits sum.splits)
next
  fix e assume "fst (create_backup_try os m now_b fs lg) = Some e"
  then show "\<exists>lg'. snd (snd (create_backup os m now_b fs lg)) =
                 lg' @ [(ERROR, ''Backup creation failed: '' @ str_exc e)]"
    by (auto simp: create_backup_def split: prod.splits option.splits)
next
  assume "fst (probe_dirs os (backup_dirs m) fs lg) = None"
  then show "\<exists>lg'. snd (snd (create_backup os m now_b fs lg)) =
                 lg' @ [(WARNING, ''No writable backup directory found'')]"
    by (auto simp: create_backup_def create_backup_try_def split: prod.splits option.splits)
qed

theorem backup_never_fails_request_witness:
  "snd (create_backup_endpoint deny_os (Some example_manager) example_now example_state) =
       \<lparr>status = 200, body = JObj [(''ok'', JBool True), (''message'', JStr ''Backup created successfully'')]\<rparr>
   \<and> (\<exists>lg'. snd (snd (create_backup deny_os example_manager example_now () [])) =
                 lg' @ [(WARNING, ''No writable backup directory found'')])"
proof -
  have "fst (probe_dirs deny_os (backup_dirs example_manager) () []) = None"
    by (simp add: backup_dirs_def deny_os_def)
  then show ?thesis
    using backup_never_fails_request [of deny_os example_manager example_now "()" "[]" example_state]
    by blast
qed

subsection \<open>Chat messages\<close>


lemma sequence_exc_Inr_length: "sequence_exc xs = Inr vs \<Longrightarrow> length vs = length xs"
proof (induction xs arbitrary: vs)
  case Nil then show ?case by simp
next
  case (Cons x xs)
  then show ?case by (cases x) (auto split: sum.splits)
qed

lemma sequence_exc_Inr_nth:
  "sequence_exc xs = Inr vs \<Longrightarrow> i < length xs \<Longrightarrow> xs ! i = Inr (vs ! i)"
proof (induction xs arbitrary: vs i)
  case Nil then show ?case by simp
next
  case (Cons x xs)
  then show ?case by (cases x; cases i) (auto split: sum.splits)
qed


lemma save_chat_message_rows:
  "save_chat_message db utc msg st = (st', resp) \<Longrightarrow>
     \<exists>new. rows (chat_messages (store st')) = rows (chat_messages (store st)) @ new"
  by (auto simp: save_chat_message_def save_chat_message_try_def sql_insert_def Let_def
           split: option.splits sum.splits)








subsection \<open>Saving and fetching a profile\<close>

lemma find_after_replace:
  "r c = v \<Longrightarrow> find (\<lambda>r'. r' c = v) (filter (\<lambda>r'. r' c \<noteq> r c) rs @ [r]) = Some r"
  by (induction rs) auto

lemma save_user_profile_try_row:
  assumes "save_user_profile_try now utc (JObj kvs) dbs = Inr dbs'"
    and "map_of kvs ''countries'' = Some cs"
    and "map_of kvs ''profile_id'' = Some (JStr pid)"
  shows "\<exists>r. rows (user_profiles dbs') =
               filter (\<lambda>r'. r' ''profile_id'' \<noteq> r ''profile_id'') (rows (user_profiles dbs)) @ [r]
           \<and> r ''profile_id'' = SText pid
           \<and> r ''countries'' = SText (json_dumps cs)"
proof -
  let ?names = "[''profile_id'', ''user_id'', ''user_role'', ''student_name'',
                 ''student_email'', ''parent_name'', ''parent_email'',
                 ''relationship'', ''child_name'', ''child_email'', ''citizenship'',
                 ''gpa'', ''degree'', ''countries'', ''budget'', ''target_intake'',
                 ''updated_at'']"
  let ?steps = "[getitem (JObj kvs) ''profile_id'',
                 getitem (JObj kvs) ''user_id'',
                 dict_get (JObj kvs) ''user_role'' JNull,
                 dict_get (JObj kvs) ''student_name'' JNull,
                 dict_get (JObj kvs) ''student_email'' JNull,
                 dict_get (JObj kvs) ''parent_name'' JNull,
                 dict_get (JObj kvs) ''parent_email'' JNull,
                 dict_get (JObj kvs) ''relationship'' JNull,
                 dict_get (JObj kvs) ''child_name'' JNull,
                 dict_get (JObj kvs) ''child_email'' JNull,
                 dict_get (JObj kvs) ''citizenship'' JNull,
                 dict_get (JObj kvs) ''gpa'' JNull,
                 dict_get (JObj kvs) ''degree'' JNull,
                 Inr (JStr (json_dumps cs)),
                 dict_get (JObj kvs) ''budget'' JNull,
                 dict_get (JObj kvs) ''target_intake'' JNull,
                 Inr (JStr (isoformat now))]"
  have c: "dict_get (JObj kvs) ''countries'' (JArr []) = Inr cs"
    using assms(2) by simp
  from assms(1) obtain vals params t where
    v: "sequence_exc ?steps = Inr vals"
    and b: "sequence_exc (map bind_param vals) = Inr params"
    and i: "sql_insert_or_replace ''user_profiles'' user_profiles_schema ''profile_id''
              (zip ?names params) (current_timestamp utc) (user_profiles dbs) = Inr t"
    and d: "dbs' = dbs\<lparr>user_profiles := t\<rparr>"
    unfolding save_user_profile_try_def c Let_def
    by (auto split: sum.splits)
  have lv: "length vals = 17" using sequence_exc_Inr_length [OF v] by simp
  have lp: "length params = 17" using sequence_exc_Inr_length [OF b] lv by simp
  have v0: "vals ! 0 = JStr pid"
    using sequence_exc_Inr_nth [OF v, of 0] assms(3) by simp
  have v13: "vals ! 13 = JStr (json_dumps cs)"
    using sequence_exc_Inr_nth [OF v, of 13] by simp
  have p0: "params ! 0 = SText pid"
    using sequence_exc_Inr_nth [OF b, of 0] lv v0 by simp
  have p13: "params ! 13 = SText (json_dumps cs)"
    using sequence_exc_Inr_nth [OF b, of 13] lv v13 by simp
  have dn: "distinct ?names" by simp
  have m0: "map_of (zip ?names params) ''profile_id'' = Some (SText pid)"
    using map_of_zip_nth [of ?names params 0] lp p0 by simp
  have m13: "map_of (zip ?names params) ''countries'' = Some (SText (json_dumps cs))"
    using map_of_zip_nth [of ?names params 13] lp p13 by simp
  define r where "r = new_row user_profiles_schema (zip ?names params)
                        (next_rowid (user_profiles dbs)) (current_timestamp utc)"
  have r0: "r ''profile_id'' = SText pid"
    unfolding r_def new_row_def by (simp add: m0 find_column_def user_profiles_schema_def)
  have r13: "r ''countries'' = SText (json_dumps cs)"
    unfolding r_def new_row_def by (simp add: m13 find_column_def user_profiles_schema_def)
  from i have "rows t = filter (\<lambda>r'. r' ''profile_id'' \<noteq> r ''profile_id'') (rows (user_profiles dbs)) @ [r]"
    unfolding sql_insert_or_replace_def Let_def r_def
    by (auto split: option.splits)
  then show ?thesis using d r0 r13 by auto
qed


lemma save_user_profile_ok:
  assumes "save_user_profile os (Some m) now utc now_b data st = (st', resp)"
    and "status resp = 200"
  shows "save_user_profile_try now utc data (store st) = Inr (store st')"
proof (cases "save_user_profile_try now utc data (store st)")
  case (Inl e)
  with assms show ?thesis by (auto simp: save_user_profile_def)
next
  case (Inr dbs)
  obtain fs' lg' where "create_backup os m now_b (fsys st) (logged st) = (Inr (), fs', lg')"
    using create_backup_returns [of os m now_b "fsys st" "logged st"]
    by (cases "create_backup os m now_b (fsys st) (logged st)") auto
  with assms(1) Inr show ?thesis by (auto simp: save_user_profile_def)
qed

text \<open>
  C1. When \<^verbatim>\<open>POST /api/profiles\<close> has saved a profile (it answered with status 200)
  whose body gives \<^verbatim>\<open>profile_id\<close> as a string and \<^verbatim>\<open>countries\<close> as a list of
  strings, the row of that \<^verbatim>\<open>profile_id\<close> holds the list as the JSON text
  \<^verbatim>\<open>json.dumps\<close> writes, and \<^verbatim>\<open>GET /api/profiles/<profile_id>\<close> answers with status
  200 and the same list, in the same order, under \<^verbatim>\<open>countries\<close>.
\<close>

theorem save_then_get_countries:
  assumes "save_user_profile os (Some m) now utc now_b (JObj kvs) st = (st', resp)"
    and "status resp = 200"
    and "map_of kvs ''countries'' = Some (JArr (map JStr cs))"
    and "map_of kvs ''profile_id'' = Some (JStr pid)"
  shows "(\<exists>r. find (\<lambda>r. r ''profile_id'' = SText pid) (rows (user_profiles (store st'))) = Some r
              \<and> r ''countries'' = SText (json_dumps (JArr (map JStr cs))))
       \<and> status (get_user_profile (Some m) (store st') pid) = 200
       \<and> (\<exists>d. body (get_user_profile (Some m) (store st') pid) = JObj [(''ok'', JBool True), (''data'', d)]
              \<and> getitem d ''countries'' = Inr (JArr (map JStr cs)))"
proof -
  have t: "save_user_profile_try now utc (JObj kvs) (store st) = Inr (store st')"
    using assms(1,2) by (rule save_user_profile_ok)
  from save_user_profile_try_row [OF t assms(3,4)] obtain r where
    rs: "rows (user_profiles (store st')) =
           filter (\<lambda>r'. r' ''profile_id'' \<noteq> r ''profile_id'') (rows (user_profiles (store st))) @ [r]"
    and r0: "r ''profile_id'' = SText pid"
    and r13: "r ''countries'' = SText (json_dumps (JArr (map JStr cs)))"
    by blast
  have f: "find (\<lambda>r. r ''profile_id'' = SText pid) (rows (user_profiles (store st'))) = Some r"
    unfolding rs using r0 by (rule find_after_replace)
  have "decode_countries (r ''countries'') = JArr (map JStr cs)"
    unfolding r13 decode_countries_def
    by (simp add: loads_dumps_strings del: json_dumps.simps) simp
  then have c: "getitem (profile_dict (select_star user_profiles_schema r)) ''countries''
                = Inr (JArr (map JStr cs))"
    by (simp only: profile_dict_countries)
  show ?thesis
    using f r13 c by (simp add: get_user_profile_def jsonify_data_def)
qed

lemma example_profile_saved:
  "status (snd (save_user_profile deny_os (Some example_manager) example_now example_now example_now
                  example_profile example_state)) = 200"
proof -
  have "\<exists>dbs. save_user_profile_try example_now example_now example_profile (store example_state) = Inr dbs"
    by (simp add: save_user_profile_try_def example_profile_def sql_insert_or_replace_def
          not_null_violation_def new_row_def find_column_def user_profiles_schema_def Let_def
          del: json_dumps.simps)
  then obtain dbs where
    "save_user_profile_try example_now example_now example_profile (store example_state) = Inr dbs" ..
  moreover obtain fs' lg' where
    "create_backup deny_os example_manager example_now (fsys example_state) (logged example_state)
       = (Inr (), fs', lg')"
    using create_backup_returns [of deny_os example_manager example_now "fsys example_state" "logged example_state"]
    by (cases "create_backup deny_os example_manager example_now (fsys example_state) (logged example_state)") auto
  ultimately show ?thesis by (simp add: save_user_profile_def)
qed

theorem save_then_get_countries_witness:
  "\<exists>d. body (get_user_profile (Some example_manager)
              (store (fst (save_user_profile deny_os (Some example_manager) example_now example_now
                             example_now example_profile example_state))) ''p2'')
          = JObj [(''ok'', JBool True), (''data'', d)]
      \<and> getitem d ''countries'' = Inr (JArr [JStr ''US'', JStr ''UK''])"
proof -
  let ?res = "save_user_profile deny_os (Some example_manager) example_now example_now example_now
                (JObj [(''profile_id'', JStr ''p2''), (''user_id'', JStr ''u1''),
                       (''user_role'', JStr ''student''),
                       (''countries'', JArr [JStr ''US'', JStr ''UK''])]) example_state"
  have 1: "?res = (fst ?res, snd ?res)" by simp
  have 2: "status (snd ?res) = 200"
    using example_profile_saved by (simp only: example_profile_def)
  have 3: "map_of [(''profile_id'', JStr ''p2''), (''user_id'', JStr ''u1''),
                   (''user_role'', JStr ''student''),
                   (''countries'', JArr [JStr ''US'', JStr ''UK''])] ''countries''
           = Some (JArr (map JStr [''US'', ''UK'']))" by simp
  have 4: "map_of [(''profile_id'', JStr ''p2''), (''user_id'', JStr ''u1''),
                   (''user_role'', JStr ''student''),
                   (''countries'', JArr [JStr ''US'', JStr ''UK''])] ''profile_id''
           = Some (JStr ''p2'')" by simp
  from save_then_get_countries [OF 1 2 3 4] show ?thesis
    by (simp add: example_profile_def)
qed

end
